theory Spec2Isabelle
  imports Complex_Main
begin

section \<open>Pose algebra of \<open>robot_callbacks.py\<close>\<close>

text \<open>
  The source computes with NumPy double-precision floats. The embedding takes the real
  numbers as the carrier: rounding, signed zeros, infinities and NaN are not modelled,
  except for \<open>__pi_wrap\<close>, which is also given with its rounding (\<open>pi_wrap_f64\<close>).
  A pose is a 4x4 homogeneous matrix whose last row is \<open>[0, 0, 0, 1]\<close>; the record below
  keeps the 3x3 block \<open>m[0:3, 0:3]\<close> (as three rows) and the column \<open>m[0:3, 3]\<close>.
\<close>

type_synonym vec3 = "real \<times> real \<times> real"
type_synonym mat3 = "vec3 \<times> vec3 \<times> vec3"

record pose =
  rot :: mat3
  trans :: vec3

datatype error = LookupException | KeyError | IndexError | LinAlgError | ValueError

definition MOVE_TOL_DIST :: real where
  "MOVE_TOL_DIST = 1 / 100"

definition deg2rad :: "real \<Rightarrow> real" where
  "deg2rad d = d * pi / 180"

definition MOVE_TOL_YAW :: real where
  "MOVE_TOL_YAW = deg2rad 1"

definition MOVE_ANGLE_K :: real where
  "MOVE_ANGLE_K = 3"

definition MOVE_POSE_K_RHO :: real where
  "MOVE_POSE_K_RHO = 7 / 10"

definition MOVE_POSE_K_ALPHA :: real where
  "MOVE_POSE_K_ALPHA = 15 / 2"

definition MOVE_POSE_K_BETA :: real where
  "MOVE_POSE_K_BETA = - 3"

definition DEFAULT_SPEED_FACTOR :: real where
  "DEFAULT_SPEED_FACTOR = 1"

subsection \<open>NumPy primitives\<close>

text \<open>\<open>np.arctan2(y, x)\<close>: the angle of the point \<open>(x, y)\<close>, with \<open>arctan2(0, 0) = 0\<close>.\<close>

definition arctan2 :: "real \<Rightarrow> real \<Rightarrow> real" where
  "arctan2 y x =
     (if 0 < x then arctan (y / x)
      else if x < 0 then (if 0 \<le> y then arctan (y / x) + pi else arctan (y / x) - pi)
      else if 0 < y then pi / 2
      else if y < 0 then - (pi / 2)
      else 0)"

text \<open>
  \<open>np.mod(x, m)\<close> in exact arithmetic: the remainder has the sign of the divisor. On
  doubles NumPy adds the divisor to a remainder of the other sign, and that addition is
  rounded; \<open>np_mod_f64\<close> below is the function with its rounding.
\<close>

definition np_mod :: "real \<Rightarrow> real \<Rightarrow> real" where
  "np_mod x m = x - m * of_int \<lfloor>x / m\<rfloor>"

text \<open>\<open>np.linalg.norm\<close> of the two-element slice \<open>m[0:2, 3]\<close>.\<close>

fun norm2 :: "vec3 \<Rightarrow> real" where
  "norm2 (x, y, z) = sqrt (x * x + y * y)"

fun vadd :: "vec3 \<Rightarrow> vec3 \<Rightarrow> vec3" where
  "vadd (a, b, c) (x, y, z) = (a + x, b + y, c + z)"

fun vneg :: "vec3 \<Rightarrow> vec3" where
  "vneg (x, y, z) = (- x, - y, - z)"

fun dot :: "vec3 \<Rightarrow> vec3 \<Rightarrow> real" where
  "dot (a, b, c) (x, y, z) = a * x + b * y + c * z"

fun mat_vec :: "mat3 \<Rightarrow> vec3 \<Rightarrow> vec3" where
  "mat_vec (r0, r1, r2) v = (dot r0 v, dot r1 v, dot r2 v)"

fun transpose3 :: "mat3 \<Rightarrow> mat3" where
  "transpose3 ((a, b, c), (d, e, f), (g, h, i)) = ((a, d, g), (b, e, h), (c, f, i))"

fun mat_mul :: "mat3 \<Rightarrow> mat3 \<Rightarrow> mat3" where
  "mat_mul (r0, r1, r2) m =
     (case transpose3 m of (c0, c1, c2) \<Rightarrow>
        ((dot r0 c0, dot r0 c1, dot r0 c2),
         (dot r1 c0, dot r1 c1, dot r1 c2),
         (dot r2 c0, dot r2 c1, dot r2 c2)))"

definition identity3 :: mat3 where
  "identity3 = ((1, 0, 0), (0, 1, 0), (0, 0, 1))"

text \<open>\<open>np.matmul\<close> of two homogeneous matrices.\<close>

definition matmul :: "pose \<Rightarrow> pose \<Rightarrow> pose" where
  "matmul a b = \<lparr>rot = mat_mul (rot a) (rot b),
                 trans = vadd (mat_vec (rot a) (trans b)) (trans a)\<rparr>"

fun det3 :: "mat3 \<Rightarrow> real" where
  "det3 ((a, b, c), (d, e, f), (g, h, i)) =
     a * (e * i - f * h) - b * (d * i - f * g) + c * (d * h - e * g)"

fun adjugate3 :: "mat3 \<Rightarrow> mat3" where
  "adjugate3 ((a, b, c), (d, e, f), (g, h, i)) =
     ((e * i - f * h, c * h - b * i, b * f - c * e),
      (f * g - d * i, a * i - c * g, c * d - a * f),
      (d * h - e * g, b * g - a * h, a * e - b * d))"

fun vscale :: "real \<Rightarrow> vec3 \<Rightarrow> vec3" where
  "vscale k (x, y, z) = (k * x, k * y, k * z)"

fun mscale :: "real \<Rightarrow> mat3 \<Rightarrow> mat3" where
  "mscale k (r0, r1, r2) = (vscale k r0, vscale k r1, vscale k r2)"

text \<open>
  \<open>np.linalg.inv\<close> of a homogeneous matrix: the inverse of \<open>[[M, t], [0, 1]]\<close> is
  \<open>[[M\<inverse>, - M\<inverse> t], [0, 1]]\<close>; a singular matrix raises \<open>LinAlgError\<close>.
\<close>

definition linalg_inv :: "pose \<Rightarrow> error + pose" where
  "linalg_inv a =
     (if det3 (rot a) = 0 then Inl LinAlgError
      else (let mi = mscale (1 / det3 (rot a)) (adjugate3 (rot a))
            in Inr \<lparr>rot = mi, trans = vneg (mat_vec mi (trans a))\<rparr>))"

subsection \<open>The helper functions\<close>

definition ang_to_b :: "pose \<Rightarrow> pose \<Rightarrow> real" where
  "ang_to_b matrix_a matrix_b =
     (case (trans matrix_a, trans matrix_b) of
        ((ax, ay, az), (bx, by, bz)) \<Rightarrow> arctan2 (by - ay) (bx - ax))"

definition tr_b_wrt_a :: "pose \<Rightarrow> pose \<Rightarrow> error + pose" where
  "tr_b_wrt_a matrix_a matrix_b =
     (case linalg_inv matrix_a of
        Inl e \<Rightarrow> Inl e
      | Inr ia \<Rightarrow> Inr (matmul ia matrix_b))"

definition ang_to_b_wrt_a :: "pose \<Rightarrow> pose \<Rightarrow> error + real" where
  "ang_to_b_wrt_a matrix_a matrix_b =
     (case tr_b_wrt_a matrix_a matrix_b of
        Inl e \<Rightarrow> Inl e
      | Inr diff \<Rightarrow> (case trans diff of (x, y, z) \<Rightarrow> Inr (arctan2 y x)))"

definition dist_from_a_to_b :: "pose \<Rightarrow> pose \<Rightarrow> error + real" where
  "dist_from_a_to_b matrix_a matrix_b =
     (case tr_b_wrt_a matrix_a matrix_b of
        Inl e \<Rightarrow> Inl e
      | Inr diff \<Rightarrow> Inr (norm2 (trans diff)))"

text \<open>
  \<open>__pi_wrap\<close> in exact arithmetic, as the control law is stated; \<open>pi_wrap_f64\<close> below is
  the same function in double precision.
\<close>

definition pi_wrap :: "real \<Rightarrow> real" where
  "pi_wrap angle = np_mod (angle + pi) (2 * pi) - pi"

text \<open>
  \<open>Rot.from_dcm(m).as_euler('XYZ')[2]\<close>, for a rotation matrix \<open>m\<close>, as SciPy 1.2 to 1.5
  (the releases that have \<open>from_dcm\<close>) compute it. With \<open>t = m c\<^sup>T rot\<close> of the
  algorithm, \<open>t[2, 0] = m[0, 1]\<close>, \<open>t[2, 1] = - m[0, 0]\<close> and \<open>t[2, 2] = m[0, 2]\<close>. The
  second angle is \<open>arccos(t[2, 2])\<close> with \<open>t[2, 2]\<close> clipped to \<open>[-1, 1]\<close>; within
  \<open>1e-7\<close> of 0 or of \<open>\<pi>\<close> the rotation counts as gimbal locked and the third angle is
  set to 0. Otherwise the third angle is \<open>arctan2(t[2, 0], t[2, 1])\<close>, from which \<open>\<pi>\<close> is
  subtracted (the second angle, offset by \<open>\<pi>/2\<close>, is always adjusted into
  \<open>[-\<pi>/2, \<pi>/2]\<close>), and \<open>2\<pi>\<close> is added to a result below \<open>-\<pi>\<close>: the third angle lies
  in the interval from \<open>-\<pi>\<close> (included) to \<open>\<pi>\<close> (excluded).
\<close>

fun euler_XYZ_z :: "mat3 \<Rightarrow> real" where
  "euler_XYZ_z ((a, b, c), r1, r2) =
     (let t = arccos (max (- 1) (min 1 c)) in
      if t < 1 / 10 ^ 7 \<or> \<bar>t - pi\<bar> < 1 / 10 ^ 7 then 0
      else (let z = arctan2 b (- a) - pi in if z < - pi then z + 2 * pi else z))"

declare euler_XYZ_z.simps [simp del]

definition yaw :: "pose \<Rightarrow> real" where
  "yaw matrix = euler_XYZ_z (rot matrix)"

definition yaw_b_wrt_a :: "pose \<Rightarrow> pose \<Rightarrow> error + real" where
  "yaw_b_wrt_a matrix_a matrix_b =
     (case tr_b_wrt_a matrix_a matrix_b of
        Inl e \<Rightarrow> Inl e
      | Inr diff \<Rightarrow> Inr (euler_XYZ_z (rot diff)))"

subsection \<open>Pose vectors\<close>

text \<open>
  \<open>__pose_vector_to_tf_matrix(pv)\<close> with \<open>pv = [x, y, z, w, X, Y, Z]\<close>:
  \<open>Rot.from_quat\<close> normalises the quaternion (a zero quaternion raises \<open>ValueError\<close>,
  as does a vector of the wrong shape) and \<open>as_dcm\<close> gives its rotation matrix; the
  division by the squared norm below is that normalisation.
\<close>

fun pose_vector_to_tf_matrix :: "real list \<Rightarrow> error + pose" where
  "pose_vector_to_tf_matrix [x, y, z, w, tx, ty, tz] =
     (let n = x * x + y * y + z * z + w * w in
      if n = 0 then Inl ValueError
      else Inr \<lparr>rot =
                  (((x * x - y * y - z * z + w * w) / n,
                    2 * (x * y - z * w) / n,
                    2 * (x * z + y * w) / n),
                   (2 * (x * y + z * w) / n,
                    (- (x * x) + y * y - z * z + w * w) / n,
                    2 * (y * z - x * w) / n),
                   (2 * (x * z - y * w) / n,
                    2 * (y * z + x * w) / n,
                    (- (x * x) - y * y + z * z + w * w) / n)),
                trans = (tx, ty, tz)\<rparr>)"
| "pose_vector_to_tf_matrix pv = Inl ValueError"

text \<open>Hamilton product of quaternions in SciPy's scalar-last layout \<open>(x, y, z, w)\<close>.\<close>

fun quat_mul :: "real \<times> real \<times> real \<times> real \<Rightarrow> real \<times> real \<times> real \<times> real
                  \<Rightarrow> real \<times> real \<times> real \<times> real" where
  "quat_mul (x1, y1, z1, w1) (x2, y2, z2, w2) =
     (w1 * x2 + x1 * w2 + y1 * z2 - z1 * y2,
      w1 * y2 - x1 * z2 + y1 * w2 + z1 * x2,
      w1 * z2 + x1 * y2 - y1 * x2 + z1 * w2,
      w1 * w2 - x1 * x2 - y1 * y2 - z1 * z2)"

text \<open>\<open>Rot.from_euler('XYZ', rpy).as_quat()\<close>: intrinsic rotations about X, then Y, then Z.\<close>

fun from_euler_XYZ :: "vec3 \<Rightarrow> real \<times> real \<times> real \<times> real" where
  "from_euler_XYZ (r, p, y) =
     quat_mul (quat_mul (sin (r / 2), 0, 0, cos (r / 2)) (0, sin (p / 2), 0, cos (p / 2)))
              (0, 0, sin (y / 2), cos (y / 2))"

definition transrpy_to_tf_matrix :: "real list \<Rightarrow> vec3 \<Rightarrow> error + pose" where
  "transrpy_to_tf_matrix trans_xyz rpy =
     (case from_euler_XYZ rpy of
        (x, y, z, w) \<Rightarrow> pose_vector_to_tf_matrix ([x, y, z, w] @ trans_xyz))"

text \<open>\<open>np.take(xs, indices)\<close>: an index out of range raises \<open>IndexError\<close>.\<close>

definition np_take :: "real list \<Rightarrow> nat list \<Rightarrow> error + real list" where
  "np_take xs ixs =
     (if list_all (\<lambda>i. i < length xs) ixs then Inr (map (\<lambda>i. xs ! i) ixs)
      else Inl IndexError)"

section \<open>The controller\<close>

text \<open>
  \<open>Twist\<close> messages: only \<open>linear.x\<close> and \<open>angular.z\<close> are ever set; \<open>Twist()\<close> is
  the zero message.
\<close>

record twist =
  linear_x :: real
  angular_z :: real

definition Twist :: twist where
  "Twist = \<lparr>linear_x = 0, angular_z = 0\<rparr>"

text \<open>
  \<open>controller.config\<close>: the keys the callbacks read. \<open>speed_factor\<close> is optional in the
  source; the other keys are read unconditionally.
\<close>

record config =
  task_name :: string
  task_localisation :: string
  global_frame :: string
  robot_frame :: string
  speed_factor :: "real option"
  poses :: "string list"
  environments :: "string \<rightharpoonup> real list list"

text \<open>
  What the callbacks observe of the outside world at one instant: the simulator
  instance's flags and the transform tree (\<open>None\<close> when \<open>lookup_transform\<close> raises;
  \<open>tf_msg_to_SE2\<close> is folded into the lookup). A move is run against a list of such
  snapshots, one per loop iteration: \<open>hz_rate.sleep()\<close> moves on to the next one.
\<close>

record world =
  is_collided :: bool
  is_dirty :: bool
  lookup_transform :: "string \<Rightarrow> string \<Rightarrow> pose option"

text \<open>
  The mutable part: the keys of the dictionary \<open>controller.state\<close> that the callbacks
  use (\<open>None\<close> for an absent key), the messages handed to \<open>publisher.publish\<close> so far
  (oldest first) and the messages given to \<open>rospy.logerr\<close>.
\<close>

record controller =
  initial_pose_tf_mat :: "pose option"
  trajectory_pose_next :: "nat option"
  trajectory_poses :: "real list list option"
  selected_environment :: "string option"
  published :: "twist list"
  logerr :: "string list"

text \<open>
  The terminal outcomes that the specification names. No function of the source has a
  \<open>return\<close> statement with a value in its move operations: they return Python's
  \<open>None\<close>, which is \<open>None\<close> below.
\<close>

datatype outcome = succeeded | collided | exhausted

definition publish :: "twist \<Rightarrow> controller \<Rightarrow> controller" where
  "publish msg s = s\<lparr>published := published s @ [msg]\<rparr>"

text \<open>Python's \<open>sub in s\<close> on strings.\<close>

fun startswith :: "string \<Rightarrow> string \<Rightarrow> bool" where
  "startswith s [] = True"
| "startswith [] (c # cs) = False"
| "startswith (d # ds) (c # cs) = (d = c \<and> startswith ds cs)"

fun str_in :: "string \<Rightarrow> string \<Rightarrow> bool" where
  "str_in sub [] = (sub = [])"
| "str_in sub (c # cs) = (startswith (c # cs) sub \<or> str_in sub cs)"

definition define_initial_pose :: "config \<Rightarrow> world \<Rightarrow> controller \<Rightarrow> (error + unit) \<times> controller" where
  "define_initial_pose cfg w s =
     (if \<not> is_dirty w \<and> initial_pose_tf_mat s = None then
        (case lookup_transform w (global_frame cfg) (robot_frame cfg) of
           None \<Rightarrow> (Inl LookupException, s)
         | Some p \<Rightarrow> (Inr (), s\<lparr>initial_pose_tf_mat := Some p\<rparr>))
      else (Inr (), s))"

definition get_noisy_pose :: "world \<Rightarrow> controller \<Rightarrow> string \<Rightarrow> error + pose" where
  "get_noisy_pose w s child_frame =
     (case initial_pose_tf_mat s of
        None \<Rightarrow> Inl KeyError
      | Some world_t_init_pose \<Rightarrow>
          (case lookup_transform w ''odom'' child_frame of
             None \<Rightarrow> Inl LookupException
           | Some odom_t_child \<Rightarrow> Inr (matmul world_t_init_pose odom_t_child)))"

definition current_pose :: "config \<Rightarrow> world \<Rightarrow> controller \<Rightarrow> (error + pose) \<times> controller" where
  "current_pose cfg w s =
     (case define_initial_pose cfg w s of
        (Inl e, s1) \<Rightarrow> (Inl e, s1)
      | (Inr u, s1) \<Rightarrow>
          (if str_in ''ground_truth'' (task_name cfg) then
             (case lookup_transform w (global_frame cfg) (robot_frame cfg) of
                None \<Rightarrow> (Inl LookupException, s1)
              | Some p \<Rightarrow> (Inr p, s1))
           else (get_noisy_pose w s1 (robot_frame cfg), s1)))"

definition move_speed_factor :: "config \<Rightarrow> real" where
  "move_speed_factor cfg =
     (case speed_factor cfg of Some f \<Rightarrow> f | None \<Rightarrow> DEFAULT_SPEED_FACTOR)"

text \<open>
  The \<open>while\<close> loop of \<open>_move_to_angle\<close>. The result is \<open>None\<close> when the snapshots run
  out while the loop is still going; otherwise it is how the loop was left (\<open>Inr ()\<close>
  through its condition or \<open>break\<close>, \<open>Inl e\<close> through an exception) and the state then.
\<close>

fun move_to_angle_loop ::
  "pose \<Rightarrow> config \<Rightarrow> world list \<Rightarrow> controller \<Rightarrow> ((error + unit) \<times> controller) option" where
  "move_to_angle_loop goal cfg [] s = None"
| "move_to_angle_loop goal cfg (w # ws) s =
     (if is_collided w then Some (Inr (), s)
      else
        (case current_pose cfg w s of
           (Inl e, s1) \<Rightarrow> Some (Inl e, s1)
         | (Inr current, s1) \<Rightarrow>
             (case yaw_b_wrt_a current goal of
                Inl e \<Rightarrow> Some (Inl e, s1)
              | Inr orientation_error \<Rightarrow>
                  if \<bar>orientation_error\<bar> < MOVE_TOL_YAW then Some (Inr (), s1)
                  else move_to_angle_loop goal cfg ws
                         (publish \<lparr>linear_x = 0,
                                   angular_z = move_speed_factor cfg * MOVE_ANGLE_K
                                     * orientation_error\<rparr> s1))))"

definition move_to_angle ::
  "pose \<Rightarrow> config \<Rightarrow> world list \<Rightarrow> controller
     \<Rightarrow> ((error + outcome option) \<times> controller) option" where
  "move_to_angle goal cfg ws s =
     (case move_to_angle_loop goal cfg ws s of
        None \<Rightarrow> None
      | Some (Inl e, s1) \<Rightarrow> Some (Inl e, s1)
      | Some (Inr u, s1) \<Rightarrow> Some (Inr None, publish Twist s1))"

text \<open>
  The \<open>while\<close> loop of \<open>_move_to_pose\<close>. The call of \<open>_move_to_angle\<close> happens within the
  iteration, so it starts on the same snapshot.
\<close>

fun move_to_pose_loop ::
  "pose \<Rightarrow> config \<Rightarrow> world list \<Rightarrow> controller \<Rightarrow> ((error + unit) \<times> controller) option" where
  "move_to_pose_loop goal cfg [] s = None"
| "move_to_pose_loop goal cfg (w # ws) s =
     (if is_collided w then Some (Inr (), s)
      else
        (case current_pose cfg w s of
           (Inl e, s1) \<Rightarrow> Some (Inl e, s1)
         | (Inr current, s1) \<Rightarrow>
             (case dist_from_a_to_b current goal of
                Inl e \<Rightarrow> Some (Inl e, s1)
              | Inr rho \<Rightarrow>
                  (let alpha = pi_wrap (ang_to_b current goal - yaw current);
                       beta = pi_wrap (yaw goal - ang_to_b current goal)
                   in (case ang_to_b_wrt_a current goal of
                         Inl e \<Rightarrow> Some (Inl e, s1)
                       | Inr rel \<Rightarrow>
                           (let backwards = (pi / 2 < \<bar>rel\<bar>);
                                alpha' = (if backwards then pi_wrap (alpha + pi) else alpha);
                                beta' = (if backwards then pi_wrap (beta + pi) else beta)
                            in if rho < MOVE_TOL_DIST then
                                 (case move_to_angle goal cfg (w # ws) s1 of
                                    None \<Rightarrow> None
                                  | Some (Inl e, s2) \<Rightarrow> Some (Inl e, s2)
                                  | Some (Inr r, s2) \<Rightarrow> Some (Inr (), s2))
                               else move_to_pose_loop goal cfg ws
                                      (publish
                                         \<lparr>linear_x = move_speed_factor cfg
                                            * (if backwards then - 1 else 1)
                                            * MOVE_POSE_K_RHO * rho,
                                          angular_z = move_speed_factor cfg
                                            * (MOVE_POSE_K_ALPHA * alpha'
                                               + MOVE_POSE_K_BETA * beta')\<rparr>
                                         s1)))))))"

definition move_to_pose ::
  "pose \<Rightarrow> config \<Rightarrow> world list \<Rightarrow> controller
     \<Rightarrow> ((error + outcome option) \<times> controller) option" where
  "move_to_pose goal cfg ws s =
     (case move_to_pose_loop goal cfg ws s of
        None \<Rightarrow> None
      | Some (Inl e, s1) \<Rightarrow> Some (Inl e, s1)
      | Some (Inr u, s1) \<Rightarrow> Some (Inr None, publish Twist s1))"

subsection \<open>Pose lists\<close>

text \<open>Assignment \<open>d[k] = v\<close> on a dictionary kept in insertion order.\<close>

fun dict_set :: "(string \<times> 'v) list \<Rightarrow> string \<Rightarrow> 'v \<Rightarrow> (string \<times> 'v) list" where
  "dict_set [] k v = [(k, v)]"
| "dict_set ((k', v') # kvs) k v =
     (if k' = k then (k, v) # kvs else (k', v') # dict_set kvs k v)"

text \<open>
  The first comprehension of \<open>create_pose_list\<close>, over the remaining pose names and
  with the dictionary built so far.
\<close>

fun build_tfs ::
  "bool \<Rightarrow> config \<Rightarrow> world \<Rightarrow> controller \<Rightarrow> string list \<Rightarrow> (string \<times> pose) list
     \<Rightarrow> error + (string \<times> pose) list" where
  "build_tfs gt_mode cfg w s [] tfs = Inr tfs"
| "build_tfs gt_mode cfg w s (p # ps) tfs =
     (if p \<noteq> ''initial_pose'' then
        (case (if gt_mode then
                 (case lookup_transform w (global_frame cfg) p of
                    None \<Rightarrow> Inl LookupException
                  | Some t \<Rightarrow> Inr t)
               else get_noisy_pose w s p) of
           Inl e \<Rightarrow> Inl e
         | Inr v \<Rightarrow> build_tfs gt_mode cfg w s ps (dict_set tfs p v))
      else build_tfs gt_mode cfg w s ps tfs)"

text \<open>
  An entry of the returned dictionary. \<open>rotation\<close> is the block \<open>v[:-1, :-1]\<close>, from
  which the source derives both \<open>rotation_rpy\<close> and \<open>rotation_xyzw\<close>.
\<close>

record pose_entry =
  parent_frame :: string
  translation_xyz :: vec3
  rotation :: mat3

fun encode_tfs ::
  "string \<Rightarrow> (string \<times> pose) list \<Rightarrow> (string \<times> pose_entry) list
     \<Rightarrow> (string \<times> pose_entry) list" where
  "encode_tfs gf [] out = out"
| "encode_tfs gf ((k, v) # kvs) out =
     encode_tfs gf kvs
       (dict_set out (if str_in ''left_camera'' k then ''camera'' else k)
          \<lparr>parent_frame = gf, translation_xyz = trans v, rotation = rot v\<rparr>)"

definition create_pose_list ::
  "config \<Rightarrow> world \<Rightarrow> controller \<Rightarrow> (error + (string \<times> pose_entry) list) \<times> controller" where
  "create_pose_list cfg w s =
     (case define_initial_pose cfg w s of
        (Inl e, s1) \<Rightarrow> (Inl e, s1)
      | (Inr u, s1) \<Rightarrow>
          (let gt_mode = (task_localisation cfg \<noteq> ''noisy'') in
           case build_tfs gt_mode cfg w s1 (poses cfg) [] of
             Inl e \<Rightarrow> (Inl e, s1)
           | Inr tfs \<Rightarrow>
               (case (if ''initial_pose'' \<in> set (poses cfg) then
                        (case initial_pose_tf_mat s1 of
                           None \<Rightarrow> Inl KeyError
                         | Some ip \<Rightarrow> Inr (dict_set tfs ''initial_pose'' ip))
                      else Inr tfs) of
                  Inl e \<Rightarrow> (Inl e, s1)
                | Inr tfs' \<Rightarrow> (Inr (encode_tfs (global_frame cfg) tfs' []), s1))))"

subsection \<open>Command dispatch\<close>

text \<open>
  \<open>data\<close> is a dictionary of numbers; \<open>__safe_dict_get\<close> reads a key with a default.
  The goal is computed from the pose at the time of the call, which is the first
  snapshot of the run. The debugging aid \<open>_debug_move\<close>, which prints poses around one
  call of \<open>_move_to_pose\<close>, and the sensor encoders \<open>encode_*\<close>, which do not use the
  controller, are left out.
\<close>

definition safe_dict_get :: "(string \<rightharpoonup> real) \<Rightarrow> string \<Rightarrow> real \<Rightarrow> real" where
  "safe_dict_get d key dflt = (case d key of Some v \<Rightarrow> v | None \<Rightarrow> dflt)"

definition move_angle ::
  "(string \<rightharpoonup> real) \<Rightarrow> config \<Rightarrow> world list \<Rightarrow> controller
     \<Rightarrow> ((error + outcome option) \<times> controller) option" where
  "move_angle data cfg ws s =
     (case ws of
        [] \<Rightarrow> None
      | w # ws' \<Rightarrow>
          (case current_pose cfg w s of
             (Inl e, s1) \<Rightarrow> Some (Inl e, s1)
           | (Inr current, s1) \<Rightarrow>
               (case transrpy_to_tf_matrix [0, 0, 0]
                       (0, 0, pi_wrap (deg2rad (safe_dict_get data ''angle'' 0))) of
                  Inl e \<Rightarrow> Some (Inl e, s1)
                | Inr rel \<Rightarrow> move_to_pose (matmul current rel) cfg ws s1)))"

definition move_distance ::
  "(string \<rightharpoonup> real) \<Rightarrow> config \<Rightarrow> world list \<Rightarrow> controller
     \<Rightarrow> ((error + outcome option) \<times> controller) option" where
  "move_distance data cfg ws s =
     (case ws of
        [] \<Rightarrow> None
      | w # ws' \<Rightarrow>
          (case current_pose cfg w s of
             (Inl e, s1) \<Rightarrow> Some (Inl e, s1)
           | (Inr current, s1) \<Rightarrow>
               (case transrpy_to_tf_matrix [safe_dict_get data ''distance'' 0, 0, 0]
                       (0, 0, 0) of
                  Inl e \<Rightarrow> Some (Inl e, s1)
                | Inr rel \<Rightarrow> move_to_pose (matmul current rel) cfg ws s1)))"

text \<open>
  The first statement of \<open>move_next\<close>: the cursor is set to 0 before the waypoint list
  is read, so a missing key leaves the cursor set and the list absent.
\<close>

definition configure_trajectory :: "config \<Rightarrow> controller \<Rightarrow> (error + unit) \<times> controller" where
  "configure_trajectory cfg s =
     (if trajectory_pose_next s = None then
        (let s1 = s\<lparr>trajectory_pose_next := Some 0\<rparr> in
         case selected_environment s1 of
           None \<Rightarrow> (Inl KeyError, s1)
         | Some env \<Rightarrow>
             (case environments cfg env of
                None \<Rightarrow> (Inl KeyError, s1)
              | Some tps \<Rightarrow> (Inr (), s1\<lparr>trajectory_poses := Some tps\<rparr>)))
      else (Inr (), s))"

text \<open>The goal of \<open>move_next\<close>: the waypoint under the cursor, as a matrix.\<close>

definition next_goal :: "controller \<Rightarrow> error + pose" where
  "next_goal s =
     (case trajectory_poses s of
        None \<Rightarrow> Inl KeyError
      | Some tps \<Rightarrow>
          (case trajectory_pose_next s of
             None \<Rightarrow> Inl KeyError
           | Some i \<Rightarrow>
               if i < length tps then
                 (case np_take (tps ! i) [1, 2, 3, 0, 4, 5, 6] of
                    Inl e \<Rightarrow> Inl e
                  | Inr pv \<Rightarrow> pose_vector_to_tf_matrix pv)
               else Inl IndexError))"

definition register_completed :: "controller \<Rightarrow> controller" where
  "register_completed s =
     (let s1 = s\<lparr>trajectory_pose_next := map_option Suc (trajectory_pose_next s)\<rparr> in
      if (case (trajectory_pose_next s1, trajectory_poses s1) of
            (Some i, Some tps) \<Rightarrow> length tps \<le> i
          | _ \<Rightarrow> False)
      then s1\<lparr>logerr := logerr s1 @ [''You have run out of trajectory poses!'']\<rparr>
      else s1)"

definition move_next ::
  "config \<Rightarrow> world list \<Rightarrow> controller \<Rightarrow> ((error + outcome option) \<times> controller) option" where
  "move_next cfg ws s =
     (case configure_trajectory cfg s of
        (Inl e, s1) \<Rightarrow> Some (Inl e, s1)
      | (Inr u, s1) \<Rightarrow>
          (case next_goal s1 of
             Inl e \<Rightarrow> Some (Inl e, s1)
           | Inr goal \<Rightarrow>
               (case move_to_pose goal cfg ws s1 of
                  None \<Rightarrow> None
                | Some (Inl e, s2) \<Rightarrow> Some (Inl e, s2)
                | Some (Inr r, s2) \<Rightarrow> Some (Inr None, register_completed s2))))"

subsection \<open>Planar poses\<close>

text \<open>
  A pose of a robot on the ground plane: its rotation block is a rotation about the
  vertical axis, \<open>[[c, -s, 0], [s, c, 0], [0, 0, 1]]\<close> with \<open>c\<^sup>2 + s\<^sup>2 = 1\<close>.
\<close>

definition planar :: "pose \<Rightarrow> bool" where
  "planar p =
     (case rot p of
        ((a, b, c), (d, e, f), (g, h, i)) \<Rightarrow>
          b = - d \<and> e = a \<and> c = 0 \<and> f = 0 \<and> g = 0 \<and> h = 0 \<and> i = 1 \<and> a\<^sup>2 + d\<^sup>2 = 1)"

definition identity_pose :: pose where
  "identity_pose = \<lparr>rot = identity3, trans = (0, 0, 0)\<rparr>"

text \<open>The invariant of a pose: the rotation block is orthonormal with determinant 1.\<close>

definition is_rotation :: "mat3 \<Rightarrow> bool" where
  "is_rotation m = (mat_mul m (transpose3 m) = identity3 \<and> det3 m = 1)"

subsection \<open>Concrete sessions\<close>

text \<open>
  Inputs used to run the callbacks on concrete data: a configuration with a given task
  name and localisation setting, a snapshot of the world with given answers of the
  transform tree for the robot in the global and in the odometry frame, a controller
  whose state dictionary only holds the selected environment, and a level pose at a
  point of the plane.
\<close>

definition example_config :: "string \<Rightarrow> string \<Rightarrow> config" where
  "example_config name localisation =
     \<lparr>task_name = name, task_localisation = localisation,
      global_frame = ''map'', robot_frame = ''base_link'',
      speed_factor = None, poses = [''base_link'', ''initial_pose''],
      environments = [''miniroom'' \<mapsto>
        [[1, 0, 0, 0, 1, 0, 0], [1, 0, 0, 0, 2, 0, 0], [1, 0, 0, 0, 3, 0, 0]]]\<rparr>"

definition gt_config :: config where
  "gt_config = example_config ''semantic_slam:active:ground_truth'' ''ground_truth''"

definition noisy_config :: config where
  "noisy_config = example_config ''semantic_slam:active:dead_reckoning'' ''noisy''"

definition mixed_config :: config where
  "mixed_config = example_config ''semantic_slam:active:ground_truth'' ''noisy''"

definition snapshot :: "bool \<Rightarrow> pose option \<Rightarrow> pose option \<Rightarrow> world" where
  "snapshot hit in_map in_odom =
     \<lparr>is_collided = hit, is_dirty = False,
      lookup_transform = (\<lambda>parent child.
        if parent = ''map'' \<and> child = ''base_link'' then in_map
        else if parent = ''odom'' \<and> child = ''base_link'' then in_odom
        else None)\<rparr>"

definition fresh_controller :: controller where
  "fresh_controller =
     \<lparr>initial_pose_tf_mat = None, trajectory_pose_next = None, trajectory_poses = None,
      selected_environment = Some ''miniroom'', published = [], logerr = []\<rparr>"

definition at_xy :: "real \<Rightarrow> real \<Rightarrow> pose" where
  "at_xy x y = \<lparr>rot = identity3, trans = (x, y, 0)\<rparr>"

text \<open>Level poses at the origin, turned by a quarter turn and by a half turn.\<close>

definition quarter_turn :: pose where
  "quarter_turn = \<lparr>rot = ((0, - 1, 0), (1, 0, 0), (0, 0, 1)), trans = (0, 0, 0)\<rparr>"

definition half_turn :: pose where
  "half_turn = \<lparr>rot = ((- 1, 0, 0), (0, - 1, 0), (0, 0, 1)), trans = (0, 0, 0)\<rparr>"

text \<open>
  A pose at the origin that is rolled and pitched, as on a ramp: the rotation about X
  and then the one about Y, both by the angle with cosine \<open>12/13\<close> and sine \<open>5/13\<close>
  (about 22.6 degrees), and no rotation about Z.
\<close>

definition tilted :: pose where
  "tilted = \<lparr>rot = ((12 / 13, 0, 5 / 13),
                     (25 / 169, 12 / 13, - (60 / 169)),
                     (- (60 / 169), 5 / 13, 144 / 169)),
              trans = (0, 0, 0)\<rparr>"

text \<open>
  The controller of the example session after \<open>k\<close> calls of \<open>move_next\<close>, each made with
  the robot standing on the waypoint it is sent to.
\<close>

definition miniroom_run :: "nat \<Rightarrow> controller" where
  "miniroom_run k =
     \<lparr>initial_pose_tf_mat = Some (at_xy 1 0),
      trajectory_pose_next = Some k,
      trajectory_poses =
        Some [[1, 0, 0, 0, 1, 0, 0], [1, 0, 0, 0, 2, 0, 0], [1, 0, 0, 0, 3, 0, 0]],
      selected_environment = Some ''miniroom'',
      published = replicate (2 * k) Twist,
      logerr = (if 3 \<le> k then [''You have run out of trajectory poses!''] else [])\<rparr>"

subsection \<open>The angle wrap in double precision\<close>

text \<open>
  The helper functions above compute over the reals. What \<open>__pi_wrap\<close> returns at the ends
  of its range depends on the rounding of IEEE 754 binary64, so it is also given as the
  program computes it. A double is a real of the form \<open>n 2\<^sup>e\<^sup>-\<^sup>5\<^sup>2\<close> with \<open>|n| \<le> 2\<^sup>5\<^sup>3\<close>; the
  exponent is left unbounded, since no sum formed by \<open>__pi_wrap\<close> on a finite argument
  overflows or is subnormal without being exact.

  \<open>rne\<close> rounds a real to the nearest integer, a tie going to the even one.
\<close>

definition rne :: "real \<Rightarrow> int" where
  "rne y =
     (let f = \<lfloor>y\<rfloor>; d = y - of_int f
      in if d < 1 / 2 then f else if 1 / 2 < d then f + 1 else if even f then f else f + 1)"

definition pow2 :: "int \<Rightarrow> real" where
  "pow2 k = (if 0 \<le> k then 2 ^ nat k else 1 / 2 ^ nat (- k))"

text \<open>
  Rounding to the nearest double, ties to even: a positive \<open>x\<close> with
  \<open>2\<^sup>e \<le> x < 2\<^sup>e\<^sup>+\<^sup>1\<close> is rounded to a multiple of \<open>2\<^sup>e\<^sup>-\<^sup>5\<^sup>2\<close>.
\<close>

definition round_pos :: "real \<Rightarrow> real" where
  "round_pos x =
     (let e = \<lfloor>log 2 x\<rfloor>; u = pow2 (e - 52) in u * of_int (rne (x / u)))"

definition round_f64 :: "real \<Rightarrow> real" where
  "round_f64 x = (if x = 0 then 0 else if 0 < x then round_pos x else - round_pos (- x))"

text \<open>\<open>np.pi\<close>, the double nearest to \<open>\<pi>\<close>: \<open>0x400921FB54442D18 = 884279719003555 / 2\<^sup>4\<^sup>8\<close>.\<close>

definition NP_PI :: real where
  "NP_PI = 884279719003555 / 2 ^ 48"

text \<open>C's \<open>fmod(a, b)\<close>: the remainder with the quotient truncated towards zero; it is exact.\<close>

definition c_fmod :: "real \<Rightarrow> real \<Rightarrow> real" where
  "c_fmod a b = a - b * of_int (if 0 \<le> a / b then \<lfloor>a / b\<rfloor> else \<lceil>a / b\<rceil>)"

text \<open>
  \<open>np.mod(a, b)\<close> on doubles (\<open>npy_divmod\<close>): \<open>mod = fmod(a, b)\<close>; if \<open>mod\<close> is not zero and
  its sign differs from that of \<open>b\<close>, then \<open>mod += b\<close>, a rounded addition; a zero remainder
  is returned as zero.
\<close>

definition np_mod_f64 :: "real \<Rightarrow> real \<Rightarrow> real" where
  "np_mod_f64 a b =
     (let m = c_fmod a b
      in if m \<noteq> 0 then (if (b < 0) \<noteq> (m < 0) then round_f64 (m + b) else m) else 0)"

text \<open>
  \<open>__pi_wrap(angle)\<close>: \<open>np.mod(angle + np.pi, 2 * np.pi) - np.pi\<close>, each operation rounded
  (\<open>2 * np.pi\<close> is exact).
\<close>

definition pi_wrap_f64 :: "real \<Rightarrow> real" where
  "pi_wrap_f64 angle =
     round_f64 (np_mod_f64 (round_f64 (angle + NP_PI)) (round_f64 (2 * NP_PI)) - NP_PI)"

section \<open>Angle wrapping\<close>

lemma np_mod_range:
  assumes "0 < m"
  shows "0 \<le> np_mod x m \<and> np_mod x m < m"
proof -
  define k :: real where "k = of_int \<lfloor>x / m\<rfloor>"
  have a: "k \<le> x / m" unfolding k_def by (rule of_int_floor_le)
  have b: "x / m < k + 1" unfolding k_def by linarith
  have xm: "m * (x / m) = x" using assms by simp
  from a assms have "m * k \<le> m * (x / m)" by (intro mult_left_mono) simp_all
  with xm have lo: "m * k \<le> x" by simp
  from b assms have "m * (x / m) < m * (k + 1)" by (intro mult_strict_left_mono) simp_all
  with xm have hi: "x < m * k + m" by (simp add: algebra_simps)
  from lo hi show ?thesis by (simp add: np_mod_def k_def [symmetric])
qed

lemma np_mod_small:
  assumes "0 \<le> x" "x < m"
  shows "np_mod x m = x"
proof -
  from assms have "0 < m" by simp
  with assms have "0 \<le> x / m" "x / m < 1" by simp_all
  then have "\<lfloor>x / m\<rfloor> = 0" by (simp add: floor_eq_iff)
  then show ?thesis by (simp add: np_mod_def)
qed

lemma pi_wrap_range: "- pi \<le> pi_wrap x \<and> pi_wrap x < pi"
  using np_mod_range [of "2 * pi" "x + pi"] by (simp add: pi_wrap_def)

lemma pi_wrap_fixed:
  assumes "- pi \<le> x" "x < pi"
  shows "pi_wrap x = x"
  using assms np_mod_small [of "x + pi" "2 * pi"] by (simp add: pi_wrap_def)

subsection \<open>Rounding to a double\<close>

lemma pow2_powr: "pow2 k = 2 powr of_int k"
  by (simp add: pow2_def powr_int)

lemma pow2_pos: "0 < pow2 k"
  by (simp add: pow2_powr)

lemma pow2_add: "pow2 (j + k) = pow2 j * pow2 k"
  by (simp add: pow2_powr powr_add)

lemma pow2_mono: "j \<le> k \<Longrightarrow> pow2 j \<le> pow2 k"
  by (simp add: pow2_powr)

lemma rne_floor: "\<lfloor>y\<rfloor> \<le> rne y \<and> rne y \<le> \<lfloor>y\<rfloor> + 1"
  by (simp add: rne_def Let_def)

lemma rne_of_int: "rne (of_int n) = n"
  by (simp add: rne_def)

lemma rne_mono:
  assumes "y1 \<le> y2"
  shows "rne y1 \<le> rne y2"
proof -
  from assms have f: "\<lfloor>y1\<rfloor> \<le> \<lfloor>y2\<rfloor>" by (rule floor_mono)
  show ?thesis
  proof (cases "\<lfloor>y1\<rfloor> < \<lfloor>y2\<rfloor>")
    case True
    with rne_floor [of y1] rne_floor [of y2] show ?thesis by linarith
  next
    case False
    with f have e: "\<lfloor>y1\<rfloor> = \<lfloor>y2\<rfloor>" by simp
    with assms have "y1 - of_int \<lfloor>y1\<rfloor> \<le> y2 - of_int \<lfloor>y2\<rfloor>" by simp
    then show ?thesis
      unfolding rne_def Let_def e by (auto split: if_splits)
  qed
qed

lemma binade:
  assumes "0 < x"
  shows "pow2 \<lfloor>log 2 x\<rfloor> \<le> x \<and> x < pow2 (\<lfloor>log 2 x\<rfloor> + 1)"
  using floor_log_eq_powr_iff [of x 2 "\<lfloor>log 2 x\<rfloor>"] assms
  by (simp add: pow2_powr)

lemma binade_unique:
  assumes "0 < x" "pow2 e \<le> x" "x < pow2 (e + 1)"
  shows "\<lfloor>log 2 x\<rfloor> = e"
  using floor_log_eq_powr_iff [of x 2 e] assms by (simp add: pow2_powr)

lemma round_pos_eval:
  assumes "0 < x" "pow2 e \<le> x" "x < pow2 (e + 1)"
  shows "round_pos x = pow2 (e - 52) * of_int (rne (x / pow2 (e - 52)))"
  using binade_unique [OF assms] by (simp add: round_pos_def Let_def)

lemma round_pos_bounds:
  assumes "0 < x"
  shows "pow2 \<lfloor>log 2 x\<rfloor> \<le> round_pos x \<and> round_pos x \<le> pow2 (\<lfloor>log 2 x\<rfloor> + 1)"
proof -
  define e where "e = \<lfloor>log 2 x\<rfloor>"
  define u where "u = pow2 (e - 52)"
  have u: "0 < u" by (simp add: u_def pow2_pos)
  have p: "pow2 52 = of_int (2 ^ 52)" "pow2 53 = of_int (2 ^ 53)"
    by (simp_all add: pow2_def)
  have lo: "pow2 e = u * of_int (2 ^ 52)"
    using pow2_add [of "e - 52" 52] unfolding p u_def by simp
  have hi: "pow2 (e + 1) = u * of_int (2 ^ 53)"
    using pow2_add [of "e - 52" 53] unfolding p u_def by (simp add: add.commute)
  from binade [OF assms] have b: "pow2 e \<le> x" "x < pow2 (e + 1)" by (simp_all add: e_def)
  from b(1) u have "of_int (2 ^ 52) \<le> x / u"
    unfolding lo by (simp add: pos_le_divide_eq mult.commute)
  then have "rne (of_int (2 ^ 52)) \<le> rne (x / u)" by (rule rne_mono)
  then have l: "(2 ^ 52 :: int) \<le> rne (x / u)" by (simp only: rne_of_int)
  from b(2) u have "x / u \<le> of_int (2 ^ 53)"
    unfolding hi by (simp add: pos_divide_le_eq mult.commute)
  then have "rne (x / u) \<le> rne (of_int (2 ^ 53))" by (rule rne_mono)
  then have h: "rne (x / u) \<le> (2 ^ 53 :: int)" by (simp only: rne_of_int)
  have r: "round_pos x = u * of_int (rne (x / u))"
    by (simp add: round_pos_def Let_def e_def u_def)
  have l': "(of_int (2 ^ 52 :: int) :: real) \<le> of_int (rne (x / u))"
    using l by (simp only: of_int_le_iff)
  have h': "(of_int (rne (x / u)) :: real) \<le> of_int (2 ^ 53 :: int)"
    using h by (simp only: of_int_le_iff)
  have "u * of_int (2 ^ 52 :: int) \<le> u * of_int (rne (x / u))"
    by (rule mult_left_mono [OF l']) (use u in simp)
  moreover have "u * of_int (rne (x / u)) \<le> u * of_int (2 ^ 53 :: int)"
    by (rule mult_left_mono [OF h']) (use u in simp)
  ultimately show ?thesis unfolding r e_def [symmetric] lo hi by simp
qed

lemma round_pos_mono:
  assumes "0 < x" "x \<le> y"
  shows "round_pos x \<le> round_pos y"
proof -
  from assms have y: "0 < y" by simp
  from assms have "log 2 x \<le> log 2 y" by simp
  then have f: "\<lfloor>log 2 x\<rfloor> \<le> \<lfloor>log 2 y\<rfloor>" by (rule floor_mono)
  show ?thesis
  proof (cases "\<lfloor>log 2 x\<rfloor> < \<lfloor>log 2 y\<rfloor>")
    case True
    then have "pow2 (\<lfloor>log 2 x\<rfloor> + 1) \<le> pow2 \<lfloor>log 2 y\<rfloor>" by (intro pow2_mono) simp
    with round_pos_bounds [OF assms(1)] round_pos_bounds [OF y] show ?thesis by linarith
  next
    case False
    with f have e: "\<lfloor>log 2 x\<rfloor> = \<lfloor>log 2 y\<rfloor>" by simp
    define u where "u = pow2 (\<lfloor>log 2 y\<rfloor> - 52)"
    have u: "0 < u" by (simp add: u_def pow2_pos)
    from assms(2) u have "x / u \<le> y / u" by (simp add: divide_right_mono)
    then have "rne (x / u) \<le> rne (y / u)" by (rule rne_mono)
    then have "u * of_int (rne (x / u)) \<le> u * of_int (rne (y / u))"
      using u by (intro mult_left_mono) simp_all
    then show ?thesis by (simp add: round_pos_def Let_def e u_def)
  qed
qed

lemma round_pos_nonneg: "0 < x \<Longrightarrow> 0 \<le> round_pos x"
  using round_pos_bounds [of x] pow2_pos [of "\<lfloor>log 2 x\<rfloor>"] by linarith

lemma round_f64_mono:
  assumes "x \<le> y"
  shows "round_f64 x \<le> round_f64 y"
proof -
  consider "0 < x" | "x \<le> 0" "0 \<le> y" | "y < 0" using assms by linarith
  then show ?thesis
  proof cases
    case 1
    with assms have "0 < y" by simp
    with 1 round_pos_mono [OF 1 assms] show ?thesis by (simp add: round_f64_def)
  next
    case 2
    have "round_f64 x \<le> 0" using 2(1) round_pos_nonneg [of "- x"] by (simp add: round_f64_def)
    moreover have "0 \<le> round_f64 y" using 2(2) round_pos_nonneg [of y] by (simp add: round_f64_def)
    ultimately show ?thesis by simp
  next
    case 3
    with assms have x: "x < 0" by simp
    from 3 assms have "round_pos (- y) \<le> round_pos (- x)" by (intro round_pos_mono) simp_all
    with 3 x show ?thesis by (simp add: round_f64_def)
  qed
qed

lemma round_f64_exact:
  assumes "0 < x" "pow2 e \<le> x" "x < pow2 (e + 1)" "x / pow2 (e - 52) = of_int n"
  shows "round_f64 x = x" "round_f64 (- x) = - x"
proof -
  have "round_pos x = pow2 (e - 52) * of_int (rne (x / pow2 (e - 52)))"
    by (rule round_pos_eval [OF assms(1-3)])
  also have "\<dots> = pow2 (e - 52) * (x / pow2 (e - 52))"
    by (simp only: assms(4) rne_of_int)
  also have "\<dots> = x" using pow2_pos [of "e - 52"] by simp
  finally have r: "round_pos x = x" .
  with assms(1) show "round_f64 x = x" "round_f64 (- x) = - x"
    by (simp_all add: round_f64_def)
qed

lemma pow2_values:
  "pow2 1 = 2" "pow2 2 = 4" "pow2 3 = 8" "pow2 (- 51) = 1 / 2 ^ 51" "pow2 (- 50) = 1 / 2 ^ 50"
  "pow2 (- 52) = 1 / 2 ^ 52" "pow2 (- 103) = 1 / 2 ^ 103"
  by (simp_all add: pow2_def)

lemma NP_PI_exact: "round_f64 NP_PI = NP_PI" "round_f64 (- NP_PI) = - NP_PI"
  by (rule round_f64_exact [where e = 1 and n = 7074237752028440];
      simp add: NP_PI_def pow2_values)+

lemma two_NP_PI_exact: "round_f64 (2 * NP_PI) = 2 * NP_PI"
  by (rule round_f64_exact(1) [where e = 2 and n = 7074237752028440];
      simp add: NP_PI_def pow2_values)

lemma round_f64_0: "round_f64 0 = 0"
  by (simp add: round_f64_def)

lemma NP_PI_pos: "0 < NP_PI"
  by (simp add: NP_PI_def)

lemma c_fmod_range:
  assumes "0 < b"
  shows "(0 \<le> a \<longrightarrow> 0 \<le> c_fmod a b \<and> c_fmod a b < b)
       \<and> (a < 0 \<longrightarrow> - b < c_fmod a b \<and> c_fmod a b \<le> 0)"
proof (intro conjI impI)
  assume a: "0 \<le> a"
  with assms have q: "0 \<le> a / b" by simp
  then have m: "c_fmod a b = np_mod a b" by (simp add: c_fmod_def np_mod_def)
  from np_mod_range [OF assms, of a] m show "0 \<le> c_fmod a b" "c_fmod a b < b" by simp_all
next
  assume a: "a < 0"
  have q: "\<not> 0 \<le> a / b" using divide_neg_pos [OF a assms] by linarith
  define k :: real where "k = of_int \<lceil>a / b\<rceil>"
  have m: "c_fmod a b = a - b * k" using q by (simp add: c_fmod_def k_def)
  have l: "a / b \<le> k" unfolding k_def by (rule le_of_int_ceiling)
  have h: "k < a / b + 1" unfolding k_def by linarith
  have ab: "b * (a / b) = a" using assms by simp
  from l assms have "b * (a / b) \<le> b * k" by (intro mult_left_mono) simp_all
  with ab have 1: "a \<le> b * k" by simp
  from h assms have "b * k < b * (a / b + 1)" by (intro mult_strict_left_mono) simp_all
  with ab have 2: "b * k < a + b" by (simp add: algebra_simps)
  from 1 2 m show "- b < c_fmod a b" "c_fmod a b \<le> 0" by simp_all
qed

lemma np_mod_f64_range:
  assumes "0 < b" "round_f64 b = b"
  shows "0 \<le> np_mod_f64 a b \<and> np_mod_f64 a b \<le> b"
proof -
  define m where "m = c_fmod a b"
  from c_fmod_range [OF assms(1), of a]
  have r: "(0 \<le> m \<and> m < b) \<or> (- b < m \<and> m < 0) \<or> m = 0"
    unfolding m_def by (cases "0 \<le> a") auto
  show ?thesis
  proof (cases "m < 0")
    case True
    with r have "0 \<le> m + b" "m + b \<le> b" by auto
    then have "round_f64 0 \<le> round_f64 (m + b)" "round_f64 (m + b) \<le> round_f64 b"
      by (auto intro: round_f64_mono)
    then have rg: "0 \<le> round_f64 (m + b)" "round_f64 (m + b) \<le> b"
      by (simp_all add: round_f64_0 assms(2))
    from True have nz: "m \<noteq> 0" by simp
    from assms(1) have nb: "\<not> b < 0" by simp
    have "np_mod_f64 a b = round_f64 (m + b)"
      using nz nb True by (simp add: np_mod_f64_def Let_def m_def [symmetric])
    with rg show ?thesis by simp
  next
    case False
    with r assms(1) have mb: "0 \<le> m" "m < b" by auto
    from assms(1) have b0: "0 \<le> b" "\<not> b < 0" by simp_all
    show ?thesis
    proof (cases "m = 0")
      case True
      with b0 show ?thesis by (simp add: np_mod_f64_def Let_def m_def [symmetric])
    next
      case nz: False
      with False mb b0 show ?thesis by (simp add: np_mod_f64_def Let_def m_def [symmetric])
    qed
  qed
qed

lemma pi_wrap_f64_range: "- NP_PI \<le> pi_wrap_f64 x \<and> pi_wrap_f64 x \<le> NP_PI"
proof -
  define r where "r = np_mod_f64 (round_f64 (x + NP_PI)) (2 * NP_PI)"
  have "0 \<le> r \<and> r \<le> 2 * NP_PI"
    unfolding r_def using NP_PI_pos two_NP_PI_exact by (intro np_mod_f64_range) simp_all
  then have "- NP_PI \<le> r - NP_PI" "r - NP_PI \<le> NP_PI" by simp_all
  then have "round_f64 (- NP_PI) \<le> round_f64 (r - NP_PI)"
    "round_f64 (r - NP_PI) \<le> round_f64 NP_PI"
    by (auto intro: round_f64_mono)
  then show ?thesis
    by (simp add: pi_wrap_f64_def two_NP_PI_exact r_def [symmetric] NP_PI_exact)
qed

lemma pi_wrap_f64_at_pi: "pi_wrap_f64 NP_PI = - NP_PI"
proof -
  have "round_f64 (NP_PI + NP_PI) = 2 * NP_PI" using two_NP_PI_exact by simp
  moreover have "np_mod_f64 (2 * NP_PI) (2 * NP_PI) = 0"
    using NP_PI_pos by (simp add: np_mod_f64_def c_fmod_def)
  ultimately show ?thesis
    by (simp add: pi_wrap_f64_def two_NP_PI_exact NP_PI_exact)
qed

lemma below_minus_pi_exact: "round_f64 (- NP_PI - 1 / 2 ^ 51) = - NP_PI - 1 / 2 ^ 51"
proof -
  have "round_f64 (- (NP_PI + 1 / 2 ^ 51)) = - (NP_PI + 1 / 2 ^ 51)"
    by (rule round_f64_exact(2) [where e = 1 and n = 7074237752028441];
        simp add: NP_PI_def pow2_values)
  then show ?thesis by simp
qed

lemma tiny_exact: "round_f64 (- (1 / 2 ^ 51)) = - (1 / 2 ^ 51)"
  by (rule round_f64_exact(2) [where e = "- 51" and n = "2 ^ 52"];
      simp add: pow2_values)

lemma tie_to_even: "round_f64 (2 * NP_PI - 1 / 2 ^ 51) = 2 * NP_PI"
proof -
  have p: "0 < 2 * NP_PI - 1 / 2 ^ 51" "pow2 2 \<le> 2 * NP_PI - 1 / 2 ^ 51"
    "2 * NP_PI - 1 / 2 ^ 51 < pow2 (2 + 1)"
    by (simp_all add: NP_PI_def pow2_values)
  have q: "(2 * NP_PI - 1 / 2 ^ 51) / pow2 (2 - 52) = 14148475504056879 / 2"
    by (simp add: NP_PI_def pow2_values)
  have f: "\<lfloor>14148475504056879 / 2 :: real\<rfloor> = 7074237752028439" by simp
  have r: "rne (14148475504056879 / 2) = 7074237752028440"
    unfolding rne_def Let_def f by simp
  have "round_pos (2 * NP_PI - 1 / 2 ^ 51) = pow2 (2 - 52) * of_int 7074237752028440"
    unfolding round_pos_eval [OF p] q r ..
  also have "\<dots> = 2 * NP_PI" by (simp add: NP_PI_def pow2_values)
  finally show ?thesis using p(1) by (simp add: round_f64_def)
qed

lemma pi_wrap_f64_below_minus_pi: "pi_wrap_f64 (- NP_PI - 1 / 2 ^ 51) = NP_PI"
proof -
  have a: "round_f64 (- NP_PI - 1 / 2 ^ 51 + NP_PI) = - (1 / 2 ^ 51)"
    using tiny_exact by simp
  have c: "\<lceil>- (1 / 2 ^ 51) / (2 * NP_PI)\<rceil> = 0"
    by (simp add: NP_PI_def ceiling_eq_iff)
  have n: "\<not> 0 \<le> - (1 / 2 ^ 51) / (2 * NP_PI)"
    by (simp add: NP_PI_def)
  have m: "c_fmod (- (1 / 2 ^ 51)) (2 * NP_PI) = - (1 / 2 ^ 51)"
    unfolding c_fmod_def using n c by simp
  have t: "- (1 / 2 ^ 51) + 2 * NP_PI = 2 * NP_PI - 1 / 2 ^ 51" by simp
  have b: "np_mod_f64 (- (1 / 2 ^ 51)) (2 * NP_PI) = 2 * NP_PI"
    unfolding np_mod_f64_def m Let_def t tie_to_even using NP_PI_pos by simp
  show ?thesis
    unfolding pi_wrap_f64_def a two_NP_PI_exact b using NP_PI_exact(1) by simp
qed

lemma round_f64_minus: "round_f64 (- x) = - round_f64 x"
  by (simp add: round_f64_def)

lemma pow2_less_cancel: "pow2 j < pow2 k \<Longrightarrow> j < k"
  by (simp add: pow2_powr)

lemma pow2_of_int: "0 \<le> k \<Longrightarrow> pow2 k = of_int (2 ^ nat k)"
  by (simp add: pow2_def)

lemma pow2_53: "pow2 (k + 53) = of_int (2 ^ 53) * pow2 k"
  using pow2_add [of 53 k] by (simp add: pow2_def add.commute)

lemma repr_lt:
  assumes "0 < j" "j < 2 ^ 53"
  shows "round_f64 (of_int j * pow2 k) = of_int j * pow2 k"
proof -
  define x where "x = of_int j * pow2 k"
  have j0: "0 < (of_int j :: real)" using assms(1) by simp
  have x: "0 < x" unfolding x_def by (rule mult_pos_pos [OF j0 pow2_pos])
  define e where "e = \<lfloor>log 2 x\<rfloor>"
  from binade [OF x] have b: "pow2 e \<le> x" "x < pow2 (e + 1)" by (simp_all add: e_def)
  have j: "(of_int j :: real) < of_int (2 ^ 53)" using assms(2) by (simp only: of_int_less_iff)
  have "x < of_int (2 ^ 53) * pow2 k"
    unfolding x_def by (rule mult_strict_right_mono [OF j pow2_pos])
  then have "x < pow2 (k + 53)" by (simp only: pow2_53)
  with b(1) have "pow2 e < pow2 (k + 53)" by linarith
  then have "e < k + 53" by (rule pow2_less_cancel)
  then have d: "0 \<le> k + 52 - e" by simp
  have "pow2 k = pow2 (e - 52) * pow2 (k + 52 - e)"
    using pow2_add [of "e - 52" "k + 52 - e"] by simp
  then have "x / pow2 (e - 52) = of_int j * pow2 (k + 52 - e)"
    using pow2_pos [of "e - 52"] by (simp add: x_def)
  also have "\<dots> = of_int (j * 2 ^ nat (k + 52 - e))"
    by (simp add: pow2_of_int [OF d])
  finally have q: "x / pow2 (e - 52) = of_int (j * 2 ^ nat (k + 52 - e))" .
  show ?thesis using round_f64_exact(1) [OF x b q] by (simp add: x_def)
qed

lemma repr_le:
  assumes "0 < j" "j \<le> 2 ^ 53"
  shows "round_f64 (of_int j * pow2 k) = of_int j * pow2 k"
proof (cases "j = 2 ^ 53")
  case True
  have "of_int j * pow2 k = of_int 1 * pow2 (k + 53)"
    unfolding True pow2_53 by simp
  then show ?thesis using repr_lt [of 1 "k + 53"] by simp
next
  case False
  with assms show ?thesis by (intro repr_lt) simp_all
qed

lemma repr:
  assumes "\<bar>j\<bar> \<le> 2 ^ 53"
  shows "round_f64 (of_int j * pow2 k) = of_int j * pow2 k"
proof -
  consider "j = 0" | "0 < j" | "j < 0" by linarith
  then show ?thesis
  proof cases
    case 1
    then show ?thesis by (simp add: round_f64_0)
  next
    case 2
    with assms show ?thesis by (intro repr_le) simp_all
  next
    case 3
    with assms have "round_f64 (of_int (- j) * pow2 k) = of_int (- j) * pow2 k"
      by (intro repr_le) simp_all
    then show ?thesis using round_f64_minus [of "of_int (- j) * pow2 k"] by simp
  qed
qed

lemma int_bound:
  assumes "\<bar>of_int j * pow2 k\<bar> \<le> of_int n * pow2 k"
  shows "\<bar>j\<bar> \<le> n"
proof -
  have "\<bar>of_int j * pow2 k\<bar> = of_int \<bar>j\<bar> * pow2 k"
    using pow2_pos [of k] by (simp add: abs_mult)
  with assms have "(of_int \<bar>j\<bar> :: real) * pow2 k \<le> of_int n * pow2 k" by simp
  then have "(of_int \<bar>j\<bar> :: real) \<le> of_int n"
    using pow2_pos [of k] by (simp add: mult_le_cancel_right)
  then show ?thesis by (simp only: of_int_le_iff)
qed

lemma repr_bounded:
  assumes "\<bar>of_int j * pow2 k\<bar> \<le> of_int (2 ^ 53) * pow2 k"
  shows "round_f64 (of_int j * pow2 k) = of_int j * pow2 k"
  by (rule repr [OF int_bound [OF assms]])

lemma repr50: "\<bar>of_int j * pow2 (- 50)\<bar> \<le> 8 \<Longrightarrow>
    round_f64 (of_int j * pow2 (- 50)) = of_int j * pow2 (- 50)"
  by (rule repr_bounded) (simp add: pow2_values)

lemma repr51: "\<bar>of_int j * pow2 (- 51)\<bar> \<le> 4 \<Longrightarrow>
    round_f64 (of_int j * pow2 (- 51)) = of_int j * pow2 (- 51)"
  by (rule repr_bounded) (simp add: pow2_values)

lemma repr52: "\<bar>of_int j * pow2 (- 52)\<bar> \<le> 2 \<Longrightarrow>
    round_f64 (of_int j * pow2 (- 52)) = of_int j * pow2 (- 52)"
  by (rule repr_bounded) (simp add: pow2_values)

lemma grid_pos:
  assumes "0 < x" "round_f64 x = x" "pow2 k \<le> x"
  shows "\<exists>j. x = of_int j * pow2 (k - 52)"
proof -
  define e where "e = \<lfloor>log 2 x\<rfloor>"
  from binade [OF assms(1)] have b: "x < pow2 (e + 1)" by (simp add: e_def)
  with assms(3) have "pow2 k < pow2 (e + 1)" by linarith
  then have "k < e + 1" by (rule pow2_less_cancel)
  then have d: "0 \<le> e - k" by simp
  have s: "pow2 (e - 52) = pow2 (e - k) * pow2 (k - 52)"
    using pow2_add [of "e - k" "k - 52"] by simp
  have "x = round_pos x" using assms(1,2) by (simp add: round_f64_def)
  also have "\<dots> = pow2 (e - 52) * of_int (rne (x / pow2 (e - 52)))"
    by (simp add: round_pos_def Let_def e_def)
  also have "\<dots> = of_int (2 ^ nat (e - k) * rne (x / pow2 (e - 52))) * pow2 (k - 52)"
    by (simp add: s pow2_of_int [OF d])
  finally show ?thesis by (rule exI)
qed

lemma grid:
  assumes "round_f64 x = x" "pow2 k \<le> \<bar>x\<bar>"
  shows "\<exists>j. x = of_int j * pow2 (k - 52)"
proof (cases "0 < x")
  case True
  with assms show ?thesis by (intro grid_pos) simp_all
next
  case False
  with assms(2) pow2_pos [of k] have n: "0 < - x" "pow2 k \<le> - x" by linarith+
  have "round_f64 (- x) = - x" using assms(1) by (simp add: round_f64_minus)
  from grid_pos [OF n(1) this n(2)] obtain j where "- x = of_int j * pow2 (k - 52)" ..
  then have "x = of_int (- j) * pow2 (k - 52)" by simp
  then show ?thesis by (rule exI)
qed

lemma round_pos_repr:
  assumes "0 < x"
  shows "round_f64 (round_pos x) = round_pos x"
proof -
  define e where "e = \<lfloor>log 2 x\<rfloor>"
  define n where "n = rne (x / pow2 (e - 52))"
  have r: "round_pos x = of_int n * pow2 (e - 52)"
    by (simp add: round_pos_def Let_def e_def n_def)
  from round_pos_bounds [OF assms]
  have b: "pow2 e \<le> round_pos x" "round_pos x \<le> pow2 (e + 1)" by (simp_all add: e_def)
  have p: "pow2 (e + 1) = of_int (2 ^ 53) * pow2 (e - 52)"
    using pow2_53 [of "e - 52"] by (simp add: add.commute)
  have "0 \<le> round_pos x" using b(1) pow2_pos [of e] by linarith
  with b(2) have "\<bar>of_int n * pow2 (e - 52)\<bar> \<le> of_int (2 ^ 53) * pow2 (e - 52)"
    unfolding r p by simp
  then show ?thesis unfolding r by (rule repr_bounded)
qed

lemma round_f64_idem: "round_f64 (round_f64 x) = round_f64 x"
proof -
  consider "x = 0" | "0 < x" | "x < 0" by linarith
  then show ?thesis
  proof cases
    case 1
    then show ?thesis by (simp add: round_f64_0)
  next
    case 2
    then have "round_f64 x = round_pos x" by (simp add: round_f64_def)
    then show ?thesis using round_pos_repr [OF 2] by (simp only:)
  next
    case 3
    then have n: "0 < - x" by simp
    from 3 have "round_f64 x = - round_pos (- x)" by (simp add: round_f64_def)
    then show ?thesis
      using round_pos_repr [OF n] by (simp only: round_f64_minus)
  qed
qed

lemma c_fmod_small:
  assumes "0 < b" "\<bar>a\<bar> < b"
  shows "c_fmod a b = a"
proof -
  from assms have q: "- 1 < a / b" "a / b < 1" by (simp_all add: field_simps)
  then have "0 \<le> a / b \<Longrightarrow> \<lfloor>a / b\<rfloor> = 0" by (simp add: floor_eq_iff)
  moreover from q have "\<not> 0 \<le> a / b \<Longrightarrow> \<lceil>a / b\<rceil> = 0" by (simp add: ceiling_eq_iff)
  ultimately show ?thesis by (simp add: c_fmod_def)
qed

lemma two_NP_PI_grid: "2 * NP_PI = of_int 7074237752028440 * pow2 (- 50)"
  by (simp add: NP_PI_def pow2_values)

lemma NP_PI_grid:
  "NP_PI = of_int 7074237752028440 * pow2 (- 51)"
  "NP_PI = of_int 14148475504056880 * pow2 (- 52)"
  by (simp_all add: NP_PI_def pow2_values)

lemma NP_PI_bounds: "3 < NP_PI" "NP_PI < 4"
  by (simp_all add: NP_PI_def)

lemma c_fmod_f64:
  assumes "round_f64 a = a"
  shows "round_f64 (c_fmod a (2 * NP_PI)) = c_fmod a (2 * NP_PI)"
proof (cases "\<bar>a\<bar> < 2 * NP_PI")
  case True
  then have "c_fmod a (2 * NP_PI) = a" using NP_PI_pos by (intro c_fmod_small) simp_all
  with assms show ?thesis by simp
next
  case False
  define b where "b = 2 * NP_PI"
  have b: "0 < b" "b < 8" "4 \<le> b" using NP_PI_bounds by (simp_all add: b_def)
  from False b have "pow2 2 \<le> \<bar>a\<bar>" by (simp add: pow2_values b_def)
  from grid [OF assms this] obtain j where j: "a = of_int j * pow2 (- 50)" by auto
  define q :: int where "q = (if 0 \<le> a / b then \<lfloor>a / b\<rfloor> else \<lceil>a / b\<rceil>)"
  have bg: "b = of_int 7074237752028440 * pow2 (- 50)"
    unfolding b_def by (rule two_NP_PI_grid)
  have "c_fmod a b = a - b * of_int q" by (simp add: c_fmod_def q_def)
  also have "\<dots> = of_int (j - 7074237752028440 * q) * pow2 (- 50)"
    unfolding j bg by (simp add: algebra_simps)
  finally have m: "c_fmod a b = of_int (j - 7074237752028440 * q) * pow2 (- 50)" .
  from c_fmod_range [OF b(1), of a] have "\<bar>c_fmod a b\<bar> < b" by (cases "0 \<le> a") auto
  with b(2) have "\<bar>of_int (j - 7074237752028440 * q) * pow2 (- 50)\<bar> \<le> 8"
    unfolding m by linarith
  then show ?thesis unfolding b_def [symmetric] m by (rule repr50)
qed

lemma np_mod_f64_f64:
  assumes "round_f64 a = a"
  shows "round_f64 (np_mod_f64 a (2 * NP_PI)) = np_mod_f64 a (2 * NP_PI)"
  using c_fmod_f64 [OF assms]
  by (simp add: np_mod_f64_def Let_def round_f64_idem round_f64_0)

lemma pi_wrap_f64_fixed:
  assumes "round_f64 y = y" "round_f64 (y + NP_PI) = y + NP_PI" "- NP_PI \<le> y" "y < NP_PI"
  shows "pi_wrap_f64 y = y"
proof -
  define a where "a = y + NP_PI"
  have a: "0 \<le> a" "a < 2 * NP_PI" using assms(3,4) by (simp_all add: a_def)
  then have "c_fmod a (2 * NP_PI) = a" by (intro c_fmod_small) simp_all
  then have "np_mod_f64 a (2 * NP_PI) = a"
    using a NP_PI_pos by (simp add: np_mod_f64_def Let_def)
  then have e: "np_mod_f64 a (2 * NP_PI) - NP_PI = y" by (simp add: a_def)
  have r: "round_f64 a = a" using assms(2) by (simp add: a_def)
  show ?thesis
    unfolding pi_wrap_f64_def two_NP_PI_exact a_def [symmetric] r e by (rule assms(1))
qed

lemma pi_wrap_f64_idem:
  assumes "pi_wrap_f64 x \<noteq> NP_PI"
  shows "pi_wrap_f64 (pi_wrap_f64 x) = pi_wrap_f64 x"
proof -
  define m where "m = np_mod_f64 (round_f64 (x + NP_PI)) (2 * NP_PI)"
  define y where "y = pi_wrap_f64 x"
  have y: "y = round_f64 (m - NP_PI)"
    by (simp add: y_def pi_wrap_f64_def two_NP_PI_exact m_def)
  have md: "round_f64 m = m"
    unfolding m_def by (rule np_mod_f64_f64) (rule round_f64_idem)
  have "0 < 2 * NP_PI" using NP_PI_pos by simp
  from np_mod_f64_range [OF this two_NP_PI_exact]
  have mr: "0 \<le> m" "m \<le> 2 * NP_PI" by (simp_all add: m_def)
  have "m \<noteq> 2 * NP_PI"
  proof
    assume "m = 2 * NP_PI"
    then have "y = NP_PI" using NP_PI_exact(1) by (simp add: y)
    with assms show False by (simp add: y_def)
  qed
  with mr have ml: "m < 2 * NP_PI" by simp
  have yd: "round_f64 y = y" unfolding y by (rule round_f64_idem)
  from pi_wrap_f64_range [of x] assms have yr: "- NP_PI \<le> y" "y < NP_PI"
    by (simp_all add: y_def)
  have s: "round_f64 (y + NP_PI) = y + NP_PI"
  proof -
    consider "2 \<le> m" | "NP_PI - 2 \<le> m" "m < 2" | "m < NP_PI - 2" by linarith
    then show ?thesis
    proof cases
      case 1
      then have "pow2 1 \<le> \<bar>m\<bar>" by (simp add: pow2_values)
      from grid [OF md this] obtain j where j: "m = of_int j * pow2 (- 51)" by auto
      have e: "m - NP_PI = of_int (j - 7074237752028440) * pow2 (- 51)"
        unfolding j by (subst NP_PI_grid(1)) (simp add: algebra_simps)
      have "\<bar>m - NP_PI\<bar> \<le> 4" using mr ml NP_PI_bounds by linarith
      then have "round_f64 (m - NP_PI) = m - NP_PI" unfolding e by (rule repr51)
      then have "y + NP_PI = m" by (simp add: y)
      then show ?thesis using md by simp
    next
      case 2
      then have "pow2 0 \<le> \<bar>m\<bar>" using NP_PI_bounds by (simp add: pow2_def)
      from grid [OF md this] obtain j where j: "m = of_int j * pow2 (- 52)" by auto
      have e: "m - NP_PI = of_int (j - 14148475504056880) * pow2 (- 52)"
        unfolding j by (subst NP_PI_grid(2)) (simp add: algebra_simps)
      have "\<bar>m - NP_PI\<bar> \<le> 2" using 2 NP_PI_bounds by linarith
      then have "round_f64 (m - NP_PI) = m - NP_PI" unfolding e by (rule repr52)
      then have "y + NP_PI = m" by (simp add: y)
      then show ?thesis using md by simp
    next
      case 3
      define z where "z = NP_PI - m"
      have z: "0 < z" "pow2 1 \<le> z" "z < pow2 (1 + 1)"
        using 3 mr NP_PI_bounds by (simp_all add: z_def pow2_values)
      define n where "n = rne (z / pow2 (1 - 52))"
      have rp: "round_pos z = pow2 (- 51) * of_int n"
        using round_pos_eval [OF z] by (simp add: n_def)
      have "y = round_f64 (- z)" by (simp add: y z_def)
      also have "\<dots> = - round_pos z" using z(1) by (simp add: round_f64_def)
      finally have yz: "y = - round_pos z" .
      have y0: "y \<le> 0" using round_pos_nonneg [OF z(1)] by (simp add: yz)
      have e: "y + NP_PI = of_int (7074237752028440 - n) * pow2 (- 51)"
        unfolding yz rp by (subst NP_PI_grid(1)) (simp add: algebra_simps)
      have "\<bar>y + NP_PI\<bar> \<le> 4" using y0 yr NP_PI_bounds by linarith
      then show ?thesis unfolding e by (rule repr51)
    qed
  qed
  show ?thesis using pi_wrap_f64_fixed [OF yd s yr] by (simp add: y_def)
qed

lemma one_exact: "round_f64 1 = 1"
  using repr52 [of "2 ^ 52"] by (simp add: pow2_values)

lemma one_plus_pi_exact: "round_f64 (1 + NP_PI) = 1 + NP_PI"
proof -
  have "1 + NP_PI = of_int 4663018782856844 * pow2 (- 50)"
    by (simp add: NP_PI_def pow2_values)
  moreover have "\<bar>1 + NP_PI\<bar> \<le> 8" using NP_PI_bounds by simp
  ultimately show ?thesis using repr50 [of 4663018782856844] by simp
qed

lemma pi_wrap_f64_one: "pi_wrap_f64 1 = 1"
  using NP_PI_bounds by (intro pi_wrap_f64_fixed one_exact one_plus_pi_exact) simp_all

lemma pi_wrap_f64_at_minus_pi: "pi_wrap_f64 (- NP_PI) = - NP_PI"
  using NP_PI_pos by (simp add: pi_wrap_f64_def round_f64_0 np_mod_f64_def c_fmod_def NP_PI_exact)

text \<open>
  Claim C3, as amended. With \<open>\<pi>\<close> read as \<open>np.pi\<close>, the double the program uses: for every
  \<open>x\<close>, \<open>__pi_wrap(x)\<close> lies in the closed interval from \<open>-\<pi>\<close> to \<open>\<pi>\<close>; wrapping twice is
  the same as wrapping once unless \<open>__pi_wrap(x) = \<pi>\<close>, and then the second wrap returns
  \<open>-\<pi>\<close>.
\<close>

theorem pi_wrap_closed_interval:
  "- NP_PI \<le> pi_wrap_f64 x \<and> pi_wrap_f64 x \<le> NP_PI
   \<and> (pi_wrap_f64 x \<noteq> NP_PI \<longrightarrow> pi_wrap_f64 (pi_wrap_f64 x) = pi_wrap_f64 x)
   \<and> (pi_wrap_f64 x = NP_PI \<longrightarrow> pi_wrap_f64 (pi_wrap_f64 x) = - NP_PI)"
  using pi_wrap_f64_range [of x] pi_wrap_f64_idem [of x] pi_wrap_f64_at_pi by simp

text \<open>
  Both cases occur: the double just below \<open>-\<pi>\<close> wraps to \<open>\<pi>\<close>, and 1 wraps to itself.
\<close>

theorem pi_wrap_closed_interval_witness:
  "pi_wrap_f64 (- NP_PI - 1 / 2 ^ 51) = NP_PI
   \<and> pi_wrap_f64 (pi_wrap_f64 (- NP_PI - 1 / 2 ^ 51)) = - NP_PI
   \<and> pi_wrap_f64 1 = 1
   \<and> pi_wrap_f64 1 \<noteq> NP_PI
   \<and> - NP_PI \<le> pi_wrap_f64 1 \<and> pi_wrap_f64 1 \<le> NP_PI
   \<and> pi_wrap_f64 (pi_wrap_f64 1) = pi_wrap_f64 1"
proof -
  have "pi_wrap_f64 1 \<noteq> NP_PI" unfolding pi_wrap_f64_one using NP_PI_bounds by simp
  then show ?thesis
    using pi_wrap_closed_interval [of "- NP_PI - 1 / 2 ^ 51"] pi_wrap_closed_interval [of 1]
      pi_wrap_f64_below_minus_pi pi_wrap_f64_one
    by simp
qed

text \<open>
  Claim C3 as stated excludes \<open>-\<pi>\<close> from the range and has the wrap idempotent. At
  \<open>x = \<pi>\<close> the code returns \<open>-\<pi>\<close>: \<open>np.mod(2\<pi>, 2\<pi>)\<close> is 0. At the double just below
  \<open>-\<pi>\<close>, \<open>x + \<pi> = -2\<^sup>-\<^sup>5\<^sup>1\<close>, the remainder \<open>2\<pi> - 2\<^sup>-\<^sup>5\<^sup>1\<close> is rounded to \<open>2\<pi>\<close>, so the code
  returns \<open>\<pi>\<close>, and wrapping that again returns \<open>-\<pi>\<close>.
\<close>

theorem pi_wrap_interval_counterexample:
  "round_f64 NP_PI = NP_PI
   \<and> pi_wrap_f64 NP_PI = - NP_PI
   \<and> \<not> (- NP_PI < pi_wrap_f64 NP_PI \<and> pi_wrap_f64 NP_PI \<le> NP_PI)
   \<and> round_f64 (- NP_PI - 1 / 2 ^ 51) = - NP_PI - 1 / 2 ^ 51
   \<and> pi_wrap_f64 (- NP_PI - 1 / 2 ^ 51) = NP_PI
   \<and> pi_wrap_f64 (pi_wrap_f64 (- NP_PI - 1 / 2 ^ 51)) = - NP_PI
   \<and> pi_wrap_f64 (pi_wrap_f64 (- NP_PI - 1 / 2 ^ 51)) \<noteq> pi_wrap_f64 (- NP_PI - 1 / 2 ^ 51)"
proof -
  have "- NP_PI \<noteq> NP_PI" using NP_PI_pos by simp
  then show ?thesis
    unfolding pi_wrap_f64_below_minus_pi pi_wrap_f64_at_pi
    using NP_PI_exact(1) below_minus_pi_exact by simp
qed

section \<open>Facts about \<open>arctan2\<close>\<close>

lemma arctan2_range: "- pi < arctan2 y x \<and> arctan2 y x \<le> pi"
proof -
  have b: "- (pi / 2) < arctan (y / x)" "arctan (y / x) < pi / 2"
    by (rule arctan_lbound, rule arctan_ubound)
  consider "0 < x" | "x < 0" "0 \<le> y" | "x < 0" "y < 0" | "x = 0"
    by linarith
  then show ?thesis
  proof cases
    case 1
    then have "arctan2 y x = arctan (y / x)" by (simp add: arctan2_def)
    with b pi_gt_zero show ?thesis by linarith
  next
    case 2
    then have "y / x \<le> 0" by (simp add: divide_nonneg_neg)
    then have le: "arctan (y / x) \<le> 0" by (simp add: arctan_le_zero_iff)
    from 2 have "arctan2 y x = arctan (y / x) + pi" by (simp add: arctan2_def)
    with b le pi_gt_zero show ?thesis by linarith
  next
    case 3
    then have "0 < y / x" by (simp add: divide_neg_neg)
    then have gt: "0 < arctan (y / x)" by (simp add: zero_less_arctan_iff)
    from 3 have "arctan2 y x = arctan (y / x) - pi" by (simp add: arctan2_def)
    with b gt pi_gt_zero show ?thesis by linarith
  next
    case 4
    then have "arctan2 y x = pi / 2 \<or> arctan2 y x = - (pi / 2) \<or> arctan2 y x = 0"
      by (simp add: arctan2_def)
    with pi_gt_zero show ?thesis by linarith
  qed
qed

lemma unit_sqrt:
  assumes "x\<^sup>2 + y\<^sup>2 = 1" "x \<noteq> 0"
  shows "sqrt (1 + (y / x)\<^sup>2) = 1 / \<bar>x\<bar>"
proof -
  have "1 + (y / x)\<^sup>2 = (x\<^sup>2 + y\<^sup>2) / x\<^sup>2"
    using assms(2) by (simp add: field_simps power_divide)
  also have "\<dots> = (1 / \<bar>x\<bar>)\<^sup>2" using assms by (simp add: power_divide)
  finally show ?thesis by (simp add: real_sqrt_divide)
qed

lemma cos_sin_arctan2:
  assumes "x\<^sup>2 + y\<^sup>2 = 1"
  shows "cos (arctan2 y x) = x \<and> sin (arctan2 y x) = y"
proof -
  consider "0 < x" | "x < 0" | "x = 0" "0 < y" | "x = 0" "y < 0" | "x = 0" "y = 0"
    by linarith
  then show ?thesis
  proof cases
    case 1
    then show ?thesis using unit_sqrt [OF assms]
      by (simp add: arctan2_def cos_arctan sin_arctan)
  next
    case 2
    then show ?thesis using unit_sqrt [OF assms]
      by (simp add: arctan2_def cos_arctan sin_arctan)
  next
    case 3
    with assms have "y\<^sup>2 = 1" by simp
    with 3 have "y = 1" by (simp add: power2_eq_1_iff)
    with 3 show ?thesis by (simp add: arctan2_def)
  next
    case 4
    with assms have "y\<^sup>2 = 1" by simp
    with 4 have "y = - 1" by (simp add: power2_eq_1_iff)
    with 4 show ?thesis by (simp add: arctan2_def)
  next
    case 5
    with assms show ?thesis by simp
  qed
qed

lemma pi_wrap_shift: "\<exists>n::int. pi_wrap t = t + 2 * pi * of_int n"
proof -
  have "pi_wrap t = t + 2 * pi * of_int (- \<lfloor>(t + pi) / (2 * pi)\<rfloor>)"
    by (simp add: pi_wrap_def np_mod_def)
  then show ?thesis by blast
qed

lemma arccos_mid:
  assumes "\<bar>c\<bar> \<le> 1 / 2"
  shows "pi / 3 \<le> arccos c \<and> arccos c \<le> 2 * pi / 3"
proof -
  from assms have c: "- (1 / 2) \<le> c" "c \<le> 1 / 2" by simp_all
  have "arccos (1 / 2) \<le> arccos c"
    using c by (intro arccos_le_arccos) simp_all
  moreover have "arccos c \<le> arccos (- (1 / 2))"
    using c by (intro arccos_le_arccos) simp_all
  moreover have "arccos (- (1 / 2)) = pi - arccos (1 / 2)"
    by (rule arccos_minus) simp_all
  ultimately show ?thesis by simp
qed

lemma euler_safe:
  assumes "\<bar>c\<bar> \<le> 1 / 2"
  shows "euler_XYZ_z ((a, b, c), r1, r2)
         = (if arctan2 b (- a) - pi < - pi then arctan2 b (- a) - pi + 2 * pi
            else arctan2 b (- a) - pi)"
proof -
  from assms have m: "max (- 1) (min 1 c) = c" by simp
  from arccos_mid [OF assms] pi_ge_two
  have "\<not> arccos c < 1 / 10 ^ 7" "\<not> \<bar>arccos c - pi\<bar> < 1 / 10 ^ 7"
    by simp_all
  then show ?thesis by (simp add: euler_XYZ_z.simps m Let_def)
qed

lemma euler_unit:
  assumes "c\<^sup>2 + s\<^sup>2 = 1"
  shows "cos (euler_XYZ_z ((c, - s, 0), r1, r2)) = c
       \<and> sin (euler_XYZ_z ((c, - s, 0), r1, r2)) = s
       \<and> - pi \<le> euler_XYZ_z ((c, - s, 0), r1, r2)
       \<and> euler_XYZ_z ((c, - s, 0), r1, r2) < pi"
proof -
  define phi where "phi = arctan2 (- s) (- c)"
  from assms have u: "(- c)\<^sup>2 + (- s)\<^sup>2 = 1" by simp
  from cos_sin_arctan2 [OF u] have cs: "cos phi = - c" "sin phi = - s"
    by (simp_all add: phi_def)
  from arctan2_range [of "- s" "- c"] have r: "- pi < phi" "phi \<le> pi"
    by (simp_all add: phi_def)
  have e: "euler_XYZ_z ((c, - s, 0), r1, r2) = (if phi - pi < - pi then phi - pi + 2 * pi else phi - pi)"
    using euler_safe [of 0 c "- s" r1 r2] by (simp add: phi_def)
  show ?thesis
  proof (cases "phi - pi < - pi")
    case True
    with e have "euler_XYZ_z ((c, - s, 0), r1, r2) = phi + pi" by simp
    with cs r True show ?thesis by simp
  next
    case False
    with e have "euler_XYZ_z ((c, - s, 0), r1, r2) = phi - pi" by simp
    with cs r False show ?thesis by simp
  qed
qed

section \<open>Inverse and relative transform\<close>

text \<open>\<open>linalg_inv\<close> returns a left inverse whenever it returns.\<close>

lemma linalg_inv_left:
  assumes "linalg_inv a = Inr ia"
  shows "matmul ia a = identity_pose"
proof -
  obtain r t where a: "a = \<lparr>rot = r, trans = t\<rparr>" by (cases a) auto
  obtain a0 b0 c0 d0 e0 f0 g0 h0 i0 where r: "r = ((a0, b0, c0), (d0, e0, f0), (g0, h0, i0))"
    by (metis prod_cases3)
  obtain x y z where t: "t = (x, y, z)" by (metis prod_cases3)
  define k where "k = 1 / det3 r"
  from assms have d: "det3 r \<noteq> 0" by (auto simp: linalg_inv_def a split: if_splits)
  then have kd: "k * det3 r = 1" by (simp add: k_def)
  from assms d have ia: "ia = \<lparr>rot = mscale k (adjugate3 r),
      trans = vneg (mat_vec (mscale k (adjugate3 r)) t)\<rparr>"
    by (simp add: linalg_inv_def a Let_def k_def)
  have kd': "k * (a0 * (e0 * i0 - f0 * h0) - b0 * (d0 * i0 - f0 * g0) + c0 * (d0 * h0 - e0 * g0)) = 1"
    using kd by (simp add: r)
  have "mat_mul (mscale k (adjugate3 r)) r = identity3"
    unfolding r identity3_def
    by simp (intro conjI; use kd' in \<open>simp add: algebra_simps\<close>)
  then show ?thesis
    unfolding ia a identity_pose_def matmul_def
    by (simp add: t r)
qed

lemma planar_inv:
  assumes "planar p"
  shows "linalg_inv p = Inr \<lparr>rot = transpose3 (rot p),
            trans = vneg (mat_vec (transpose3 (rot p)) (trans p))\<rparr>"
proof -
  obtain r t where p: "p = \<lparr>rot = r, trans = t\<rparr>" by (cases p) auto
  obtain a0 b0 c0 d0 e0 f0 g0 h0 i0 where r: "r = ((a0, b0, c0), (d0, e0, f0), (g0, h0, i0))"
    by (metis prod_cases3)
  obtain x y z where t: "t = (x, y, z)" by (metis prod_cases3)
  from assms have pl: "b0 = - d0" "e0 = a0" "c0 = 0" "f0 = 0" "g0 = 0" "h0 = 0" "i0 = 1"
    "a0\<^sup>2 + d0\<^sup>2 = 1"
    by (simp_all add: planar_def p r)
  then have u: "a0 * a0 + d0 * d0 = 1" by (simp add: power2_eq_square)
  have d: "det3 r = 1" using u by (simp add: r pl)
  show ?thesis using u
    by (simp add: linalg_inv_def p d Let_def) (simp add: r t pl)
qed

lemma planar_shape:
  assumes "planar p"
  obtains c s x y z where "p = \<lparr>rot = ((c, - s, 0), (s, c, 0), (0, 0, 1)), trans = (x, y, z)\<rparr>"
    and "c\<^sup>2 + s\<^sup>2 = 1"
proof -
  obtain r t where p: "p = \<lparr>rot = r, trans = t\<rparr>" by (cases p) auto
  obtain a0 b0 c0 d0 e0 f0 g0 h0 i0 where r: "r = ((a0, b0, c0), (d0, e0, f0), (g0, h0, i0))"
    by (metis prod_cases3)
  obtain x y z where t: "t = (x, y, z)" by (metis prod_cases3)
  from assms have "b0 = - d0" "e0 = a0" "c0 = 0" "f0 = 0" "g0 = 0" "h0 = 0" "i0 = 1"
    "a0\<^sup>2 + d0\<^sup>2 = 1"
    by (simp_all add: planar_def p r)
  with p r t that show ?thesis by simp
qed

lemma planar_tr_b_wrt_a:
  assumes "c\<^sup>2 + s\<^sup>2 = 1"
  shows "tr_b_wrt_a \<lparr>rot = ((c, - s, 0), (s, c, 0), (0, 0, 1)), trans = (x, y, z)\<rparr>
                    \<lparr>rot = ((c', - s', 0), (s', c', 0), (0, 0, 1)), trans = (x', y', z')\<rparr>
         = Inr \<lparr>rot = ((c * c' + s * s', - (c * s' - s * c'), 0),
                        (c * s' - s * c', c * c' + s * s', 0),
                        (0, 0, 1)),
                 trans = (c * (x' - x) + s * (y' - y), c * (y' - y) - s * (x' - x), z' - z)\<rparr>"
proof -
  have "planar \<lparr>rot = ((c, - s, 0), (s, c, 0), (0, 0, 1)), trans = (x, y, z)\<rparr>"
    using assms by (simp add: planar_def)
  from planar_inv [OF this] show ?thesis
    by (simp add: tr_b_wrt_a_def matmul_def algebra_simps)
qed

lemma planar_dist:
  assumes "planar a" "planar b" "trans a = (ax, ay, az)" "trans b = (bx, by, bz)"
  shows "dist_from_a_to_b a b = Inr (sqrt ((bx - ax)\<^sup>2 + (by - ay)\<^sup>2))"
proof -
  obtain c s x y z where a: "a = \<lparr>rot = ((c, - s, 0), (s, c, 0), (0, 0, 1)), trans = (x, y, z)\<rparr>"
    and u: "c\<^sup>2 + s\<^sup>2 = 1" by (rule planar_shape [OF assms(1)])
  obtain c' s' x' y' z' where b: "b = \<lparr>rot = ((c', - s', 0), (s', c', 0), (0, 0, 1)), trans = (x', y', z')\<rparr>"
    and u': "c'\<^sup>2 + s'\<^sup>2 = 1" by (rule planar_shape [OF assms(2)])
  from assms(3,4) a b have e: "x = ax" "y = ay" "x' = bx" "y' = by" by simp_all
  have "(c * (bx - ax) + s * (by - ay))\<^sup>2 + (c * (by - ay) - s * (bx - ax))\<^sup>2
          = (c\<^sup>2 + s\<^sup>2) * ((bx - ax)\<^sup>2 + (by - ay)\<^sup>2)"
    by (simp add: power2_eq_square algebra_simps)
  with u have k: "(c * (bx - ax) + s * (by - ay))\<^sup>2 + (c * (by - ay) - s * (bx - ax))\<^sup>2
          = (bx - ax)\<^sup>2 + (by - ay)\<^sup>2" by simp
  have "dist_from_a_to_b a b
      = Inr (sqrt ((c * (bx - ax) + s * (by - ay))\<^sup>2 + (c * (by - ay) - s * (bx - ax))\<^sup>2))"
    unfolding a b e dist_from_a_to_b_def planar_tr_b_wrt_a [OF u]
    by (simp add: power2_eq_square)
  with k show ?thesis by simp
qed


text \<open>
  Claim C8, as amended. For planar poses \<open>A\<close> and \<open>B\<close> (rotation about the vertical axis
  only), \<open>__dist_from_a_to_b(A, B)\<close> and \<open>__dist_from_a_to_b(B, A)\<close> both return, and
  return the same number.
\<close>

theorem dist_symmetric_planar:
  assumes "planar a" "planar b"
  shows "dist_from_a_to_b a b = dist_from_a_to_b b a \<and> (\<exists>d. dist_from_a_to_b a b = Inr d)"
proof -
  obtain ax ay az where ta: "trans a = (ax, ay, az)" by (rule prod_cases3)
  obtain bx "by" bz where tb: "trans b = (bx, by, bz)" by (rule prod_cases3)
  have "(bx - ax)\<^sup>2 + (by - ay)\<^sup>2 = (ax - bx)\<^sup>2 + (ay - by)\<^sup>2"
    by (simp add: power2_commute)
  then show ?thesis
    using planar_dist [OF assms ta tb] planar_dist [OF assms(2,1) tb ta] by simp
qed

theorem dist_symmetric_planar_witness:
  "planar identity_pose \<and> planar \<lparr>rot = identity3, trans = (3, 4, 0)\<rparr>
   \<and> dist_from_a_to_b identity_pose \<lparr>rot = identity3, trans = (3, 4, 0)\<rparr>
       = dist_from_a_to_b \<lparr>rot = identity3, trans = (3, 4, 0)\<rparr> identity_pose"
proof -
  have a: "planar identity_pose" by (simp add: planar_def identity_pose_def identity3_def)
  have b: "planar \<lparr>rot = identity3, trans = (3, 4, 0)\<rparr>" by (simp add: planar_def identity3_def)
  from a b dist_symmetric_planar [OF a b] show ?thesis by blast
qed

text \<open>
  Claim C8 as stated ranges over all poses. With \<open>A\<close> the identity and \<open>B\<close> a quarter turn
  about the Y axis placed at \<open>(1, 0, 0)\<close>, the distance from \<open>A\<close> to \<open>B\<close> is 1 and the
  distance from \<open>B\<close> to \<open>A\<close> is 0: the two-dimensional norm is taken in the frame of the
  first argument, and \<open>B\<close>'s frame sees \<open>A\<close> straight along its own vertical axis.
\<close>

theorem dist_symmetric_counterexample:
  "is_rotation (rot identity_pose)
   \<and> is_rotation ((0, 0, 1), (0, 1, 0), (- 1, 0, 0))
   \<and> dist_from_a_to_b identity_pose
        \<lparr>rot = ((0, 0, 1), (0, 1, 0), (- 1, 0, 0)), trans = (1, 0, 0)\<rparr> = Inr 1
   \<and> dist_from_a_to_b \<lparr>rot = ((0, 0, 1), (0, 1, 0), (- 1, 0, 0)), trans = (1, 0, 0)\<rparr>
        identity_pose = Inr 0
   \<and> dist_from_a_to_b identity_pose
        \<lparr>rot = ((0, 0, 1), (0, 1, 0), (- 1, 0, 0)), trans = (1, 0, 0)\<rparr>
      \<noteq> dist_from_a_to_b \<lparr>rot = ((0, 0, 1), (0, 1, 0), (- 1, 0, 0)), trans = (1, 0, 0)\<rparr>
        identity_pose"
proof -
  have r1: "is_rotation (rot identity_pose)"
    by (simp add: identity_pose_def identity3_def is_rotation_def)
  have r2: "is_rotation ((0, 0, 1), (0, 1, 0), (- 1, 0, 0))"
    by (simp add: identity3_def is_rotation_def)
  have d1: "dist_from_a_to_b identity_pose
        \<lparr>rot = ((0, 0, 1), (0, 1, 0), (- 1, 0, 0)), trans = (1, 0, 0)\<rparr> = Inr 1"
    by (simp add: dist_from_a_to_b_def tr_b_wrt_a_def linalg_inv_def matmul_def
        identity_pose_def identity3_def Let_def)
  have d2: "dist_from_a_to_b \<lparr>rot = ((0, 0, 1), (0, 1, 0), (- 1, 0, 0)), trans = (1, 0, 0)\<rparr>
        identity_pose = Inr 0"
    by (simp add: dist_from_a_to_b_def tr_b_wrt_a_def linalg_inv_def matmul_def
        identity_pose_def identity3_def Let_def)
  from r1 r2 show ?thesis unfolding d1 d2 by simp
qed

section \<open>Effects of the pose estimator and of the loops on the state\<close>

lemma define_initial_pose_cases:
  "define_initial_pose cfg w s = (Inr (), s)
   \<or> (initial_pose_tf_mat s = None \<and> \<not> is_dirty w
       \<and> lookup_transform w (global_frame cfg) (robot_frame cfg) = None
       \<and> define_initial_pose cfg w s = (Inl LookupException, s))
   \<or> (initial_pose_tf_mat s = None \<and> \<not> is_dirty w
       \<and> (\<exists>p. lookup_transform w (global_frame cfg) (robot_frame cfg) = Some p
             \<and> define_initial_pose cfg w s = (Inr (), s\<lparr>initial_pose_tf_mat := Some p\<rparr>)))"
  by (cases "lookup_transform w (global_frame cfg) (robot_frame cfg)")
     (auto simp: define_initial_pose_def)

lemma define_initial_pose_state:
  "snd (define_initial_pose cfg w s) = s
   \<or> (initial_pose_tf_mat s = None
       \<and> (\<exists>p. snd (define_initial_pose cfg w s) = s\<lparr>initial_pose_tf_mat := Some p\<rparr>))"
  using define_initial_pose_cases [of cfg w s] by auto

lemma current_pose_snd: "snd (current_pose cfg w s) = snd (define_initial_pose cfg w s)"
  by (auto simp: current_pose_def split: prod.splits sum.splits option.splits)

lemma current_pose_state:
  "snd (current_pose cfg w s) = s
   \<or> (initial_pose_tf_mat s = None
       \<and> (\<exists>p. snd (current_pose cfg w s) = s\<lparr>initial_pose_tf_mat := Some p\<rparr>))"
  using define_initial_pose_state [of cfg w s] by (simp add: current_pose_snd)

lemma current_pose_published:
  "current_pose cfg w s = (r, s1) \<Longrightarrow> published s1 = published s"
  using current_pose_state [of cfg w s] by auto

lemma current_pose_initial:
  "current_pose cfg w s = (r, s1) \<Longrightarrow> initial_pose_tf_mat s = Some ip
     \<Longrightarrow> initial_pose_tf_mat s1 = Some ip"
  using current_pose_state [of cfg w s] by auto

lemma current_pose_frame:
  "current_pose cfg w s = (r, s1) \<Longrightarrow>
     trajectory_pose_next s1 = trajectory_pose_next s
     \<and> trajectory_poses s1 = trajectory_poses s
     \<and> selected_environment s1 = selected_environment s
     \<and> logerr s1 = logerr s"
  using current_pose_state [of cfg w s] by auto


lemma tol_yaw_pos: "0 < MOVE_TOL_YAW"
  by (simp add: MOVE_TOL_YAW_def deg2rad_def)

lemma publish_simps:
  "published (publish m s) = published s @ [m]"
  "initial_pose_tf_mat (publish m s) = initial_pose_tf_mat s"
  "trajectory_pose_next (publish m s) = trajectory_pose_next s"
  "trajectory_poses (publish m s) = trajectory_poses s"
  "selected_environment (publish m s) = selected_environment s"
  "logerr (publish m s) = logerr s"
  by (simp_all add: publish_def)

lemma move_to_angle_loop_effect:
  "move_to_angle_loop goal cfg ws s = Some (r, s') \<Longrightarrow>
     trajectory_pose_next s' = trajectory_pose_next s
     \<and> trajectory_poses s' = trajectory_poses s
     \<and> selected_environment s' = selected_environment s
     \<and> logerr s' = logerr s
     \<and> (\<forall>ip. initial_pose_tf_mat s = Some ip \<longrightarrow> initial_pose_tf_mat s' = Some ip)
     \<and> (\<exists>cmds. published s' = published s @ cmds
            \<and> (move_speed_factor cfg \<noteq> 0 \<longrightarrow> Twist \<notin> set cmds))"
proof (induction ws arbitrary: s)
  case Nil
  then show ?case by simp
next
  case (Cons w ws)
  obtain rc s1 where cp: "current_pose cfg w s = (rc, s1)" by (cases "current_pose cfg w s")
  note fr = current_pose_frame [OF cp] current_pose_published [OF cp]
  have ini: "\<forall>ip. initial_pose_tf_mat s = Some ip \<longrightarrow> initial_pose_tf_mat s1 = Some ip"
    using current_pose_initial [OF cp] by blast
  show ?case
  proof (cases "is_collided w")
    case True
    with Cons.prems show ?thesis by simp
  next
    case False
    show ?thesis
    proof (cases rc)
      case (Inl e)
      with Cons.prems False cp have "s' = s1" by simp
      with fr ini show ?thesis by simp
    next
      case (Inr current)
      show ?thesis
      proof (cases "yaw_b_wrt_a current goal")
        case (Inl e)
        with Cons.prems False cp Inr have "s' = s1" by simp
        with fr ini show ?thesis by simp
      next
        case yb: (Inr err)
        show ?thesis
        proof (cases "\<bar>err\<bar> < MOVE_TOL_YAW")
          case True
          with Cons.prems False cp Inr yb have "s' = s1" by simp
          with fr ini show ?thesis by simp
        next
          case nt: False
          define m where "m = \<lparr>linear_x = 0, angular_z = move_speed_factor cfg * MOVE_ANGLE_K * err\<rparr>"
          from Cons.prems False cp Inr yb nt
          have "move_to_angle_loop goal cfg ws (publish m s1) = Some (r, s')"
            by (simp add: m_def)
          from Cons.IH [OF this] obtain cmds where
            ih: "trajectory_pose_next s' = trajectory_pose_next s1"
              "trajectory_poses s' = trajectory_poses s1"
              "selected_environment s' = selected_environment s1"
              "logerr s' = logerr s1"
              "\<forall>ip. initial_pose_tf_mat s1 = Some ip \<longrightarrow> initial_pose_tf_mat s' = Some ip"
              "published s' = (published s1 @ [m]) @ cmds"
              "move_speed_factor cfg \<noteq> 0 \<longrightarrow> Twist \<notin> set cmds"
            by (auto simp: publish_simps)
          from nt tol_yaw_pos have "err \<noteq> 0" by auto
          then have nz: "move_speed_factor cfg \<noteq> 0 \<longrightarrow> m \<noteq> Twist"
            by (simp add: m_def Twist_def MOVE_ANGLE_K_def)
          have "published s' = published s @ (m # cmds)" using ih(6) fr by simp
          moreover have "move_speed_factor cfg \<noteq> 0 \<longrightarrow> Twist \<notin> set (m # cmds)"
            using nz ih(7) by auto
          ultimately have "\<exists>cmds. published s' = published s @ cmds
            \<and> (move_speed_factor cfg \<noteq> 0 \<longrightarrow> Twist \<notin> set cmds)" by blast
          with ih fr ini show ?thesis by simp
        qed
      qed
    qed
  qed
qed

lemma move_to_angle_cases:
  assumes "move_to_angle goal cfg ws s = Some (r, s')"
  shows "(\<exists>e. r = Inl e \<and> move_to_angle_loop goal cfg ws s = Some (Inl e, s'))
         \<or> (\<exists>s1. r = Inr None \<and> move_to_angle_loop goal cfg ws s = Some (Inr (), s1)
                \<and> s' = publish Twist s1)"
  using assms
  by (auto simp: move_to_angle_def split: option.splits prod.splits sum.splits)

lemma move_to_angle_effect:
  assumes "move_to_angle goal cfg ws s = Some (r, s')"
  shows "trajectory_pose_next s' = trajectory_pose_next s
     \<and> trajectory_poses s' = trajectory_poses s
     \<and> selected_environment s' = selected_environment s
     \<and> logerr s' = logerr s
     \<and> (\<forall>ip. initial_pose_tf_mat s = Some ip \<longrightarrow> initial_pose_tf_mat s' = Some ip)
     \<and> (\<exists>cmds. published s' = published s @ cmds
            \<and> (case r of Inl e \<Rightarrow> move_speed_factor cfg \<noteq> 0 \<longrightarrow> Twist \<notin> set cmds
                | Inr v \<Rightarrow> cmds \<noteq> [] \<and> last cmds = Twist))"
proof -
  from move_to_angle_cases [OF assms] show ?thesis
  proof (elim disjE exE conjE)
    fix e
    assume r: "r = Inl e" and l: "move_to_angle_loop goal cfg ws s = Some (Inl e, s')"
    from move_to_angle_loop_effect [OF l] r show ?thesis by simp
  next
    fix s1
    assume r: "r = Inr None" and l: "move_to_angle_loop goal cfg ws s = Some (Inr (), s1)"
      and s': "s' = publish Twist s1"
    from move_to_angle_loop_effect [OF l] obtain cmds where
      e: "trajectory_pose_next s1 = trajectory_pose_next s"
         "trajectory_poses s1 = trajectory_poses s"
         "selected_environment s1 = selected_environment s"
         "logerr s1 = logerr s"
         "\<forall>ip. initial_pose_tf_mat s = Some ip \<longrightarrow> initial_pose_tf_mat s1 = Some ip"
         "published s1 = published s @ cmds"
      by blast
    have "published s' = published s @ (cmds @ [Twist])"
      by (simp add: s' publish_simps e)
    moreover have "cmds @ [Twist] \<noteq> [] \<and> last (cmds @ [Twist]) = Twist" by simp
    ultimately have "\<exists>c. published s' = published s @ c \<and> c \<noteq> [] \<and> last c = Twist"
      by blast
    with e r s' show ?thesis by (simp add: publish_simps)
  qed
qed

lemma tol_dist_pos: "0 < MOVE_TOL_DIST"
  by (simp add: MOVE_TOL_DIST_def)

lemma move_to_pose_loop_tick:
  assumes "\<not> is_collided w"
    and "current_pose cfg w s = (Inr current, s1)"
    and "dist_from_a_to_b current goal = Inr rho"
    and "ang_to_b_wrt_a current goal = Inr rel"
    and "\<not> rho < MOVE_TOL_DIST"
  shows "\<exists>m. move_to_pose_loop goal cfg (w # ws) s
                = move_to_pose_loop goal cfg ws (publish m s1)
          \<and> linear_x m = move_speed_factor cfg
                * (if pi / 2 < \<bar>rel\<bar> then - 1 else 1) * (7 / 10) * rho
          \<and> angular_z m = move_speed_factor cfg
                * (15 / 2
                     * (if pi / 2 < \<bar>rel\<bar>
                        then pi_wrap (pi_wrap (ang_to_b current goal - yaw current) + pi)
                        else pi_wrap (ang_to_b current goal - yaw current))
                   + (- 3)
                     * (if pi / 2 < \<bar>rel\<bar>
                        then pi_wrap (pi_wrap (yaw goal - ang_to_b current goal) + pi)
                        else pi_wrap (yaw goal - ang_to_b current goal)))"
proof -
  define m where "m = \<lparr>linear_x = move_speed_factor cfg
        * (if pi / 2 < \<bar>rel\<bar> then - 1 else 1) * MOVE_POSE_K_RHO * rho,
      angular_z = move_speed_factor cfg
        * (MOVE_POSE_K_ALPHA
             * (if pi / 2 < \<bar>rel\<bar>
                then pi_wrap (pi_wrap (ang_to_b current goal - yaw current) + pi)
                else pi_wrap (ang_to_b current goal - yaw current))
           + MOVE_POSE_K_BETA
             * (if pi / 2 < \<bar>rel\<bar>
                then pi_wrap (pi_wrap (yaw goal - ang_to_b current goal) + pi)
                else pi_wrap (yaw goal - ang_to_b current goal)))\<rparr>"
  have "move_to_pose_loop goal cfg (w # ws) s = move_to_pose_loop goal cfg ws (publish m s1)"
    using assms by (simp add: Let_def m_def)
  moreover have "linear_x m = move_speed_factor cfg
                * (if pi / 2 < \<bar>rel\<bar> then - 1 else 1) * (7 / 10) * rho"
    by (simp add: m_def MOVE_POSE_K_RHO_def)
  moreover have "angular_z m = move_speed_factor cfg
                * (15 / 2
                     * (if pi / 2 < \<bar>rel\<bar>
                        then pi_wrap (pi_wrap (ang_to_b current goal - yaw current) + pi)
                        else pi_wrap (ang_to_b current goal - yaw current))
                   + (- 3)
                     * (if pi / 2 < \<bar>rel\<bar>
                        then pi_wrap (pi_wrap (yaw goal - ang_to_b current goal) + pi)
                        else pi_wrap (yaw goal - ang_to_b current goal)))"
    by (simp add: m_def MOVE_POSE_K_ALPHA_def MOVE_POSE_K_BETA_def)
  ultimately show ?thesis by blast
qed

lemma move_to_pose_loop_effect:
  "move_to_pose_loop goal cfg ws s = Some (r, s') \<Longrightarrow>
     trajectory_pose_next s' = trajectory_pose_next s
     \<and> trajectory_poses s' = trajectory_poses s
     \<and> selected_environment s' = selected_environment s
     \<and> logerr s' = logerr s
     \<and> (\<forall>ip. initial_pose_tf_mat s = Some ip \<longrightarrow> initial_pose_tf_mat s' = Some ip)
     \<and> (\<exists>cmds. published s' = published s @ cmds
            \<and> (case r of Inl e \<Rightarrow> move_speed_factor cfg \<noteq> 0 \<longrightarrow> Twist \<notin> set cmds
                | Inr v \<Rightarrow> True))"
proof (induction ws arbitrary: s)
  case Nil
  then show ?case by simp
next
  case (Cons w ws)
  obtain rc s1 where cp: "current_pose cfg w s = (rc, s1)" by (cases "current_pose cfg w s")
  note fr = current_pose_frame [OF cp] current_pose_published [OF cp]
  have ini: "\<forall>ip. initial_pose_tf_mat s = Some ip \<longrightarrow> initial_pose_tf_mat s1 = Some ip"
    using current_pose_initial [OF cp] by blast
  have stop: ?case if "s' = s1"
    using that fr ini by (cases r) simp_all
  show ?case
  proof (cases "is_collided w")
    case True
    with Cons.prems have "s' = s" "r = Inr ()" by simp_all
    then show ?thesis by simp
  next
    case False
    show ?thesis
    proof (cases rc)
      case (Inl e)
      with Cons.prems False cp have "s' = s1" by simp
      then show ?thesis by (rule stop)
    next
      case (Inr current)
      show ?thesis
      proof (cases "dist_from_a_to_b current goal")
        case (Inl e)
        with Cons.prems False cp Inr have "s' = s1" by simp
        then show ?thesis by (rule stop)
      next
        case d: (Inr rho)
        show ?thesis
        proof (cases "ang_to_b_wrt_a current goal")
          case (Inl e)
          with Cons.prems False cp Inr d have "s' = s1" by (simp add: Let_def)
          then show ?thesis by (rule stop)
        next
          case a: (Inr rel)
          show ?thesis
          proof (cases "rho < MOVE_TOL_DIST")
            case True
            with Cons.prems False cp Inr d a
            obtain r2 where m: "move_to_angle goal cfg (w # ws) s1 = Some (r2, s')"
              and r: "r = (case r2 of Inl e \<Rightarrow> Inl e | Inr v \<Rightarrow> Inr ())"
              by (auto simp: Let_def split: option.splits prod.splits sum.splits)
            from move_to_angle_effect [OF m] obtain cmds where
              e: "trajectory_pose_next s' = trajectory_pose_next s1"
                 "trajectory_poses s' = trajectory_poses s1"
                 "selected_environment s' = selected_environment s1"
                 "logerr s' = logerr s1"
                 "\<forall>ip. initial_pose_tf_mat s1 = Some ip \<longrightarrow> initial_pose_tf_mat s' = Some ip"
                 "published s' = published s1 @ cmds"
                 "case r2 of Inl e \<Rightarrow> move_speed_factor cfg \<noteq> 0 \<longrightarrow> Twist \<notin> set cmds
                   | Inr v \<Rightarrow> cmds \<noteq> [] \<and> last cmds = Twist"
              by blast
            have "\<exists>c. published s' = published s @ c
                \<and> (case r of Inl e \<Rightarrow> move_speed_factor cfg \<noteq> 0 \<longrightarrow> Twist \<notin> set c
                    | Inr v \<Rightarrow> True)"
              using e(6,7) fr r by (cases r2) auto
            with e fr ini show ?thesis by simp
          next
            case nt: False
            from move_to_pose_loop_tick [OF False cp [unfolded Inr] d a nt, of ws]
            obtain m where tick: "move_to_pose_loop goal cfg (w # ws) s
                  = move_to_pose_loop goal cfg ws (publish m s1)"
              and lin: "linear_x m = move_speed_factor cfg
                  * (if pi / 2 < \<bar>rel\<bar> then - 1 else 1) * (7 / 10) * rho"
              by blast
            from Cons.prems tick
            have "move_to_pose_loop goal cfg ws (publish m s1) = Some (r, s')"
              by simp
            from Cons.IH [OF this] obtain cmds where
              ih: "trajectory_pose_next s' = trajectory_pose_next s1"
                "trajectory_poses s' = trajectory_poses s1"
                "selected_environment s' = selected_environment s1"
                "logerr s' = logerr s1"
                "\<forall>ip. initial_pose_tf_mat s1 = Some ip \<longrightarrow> initial_pose_tf_mat s' = Some ip"
                "published s' = (published s1 @ [m]) @ cmds"
                "case r of Inl e \<Rightarrow> move_speed_factor cfg \<noteq> 0 \<longrightarrow> Twist \<notin> set cmds
                   | Inr v \<Rightarrow> True"
              by (auto simp: publish_simps)
            from nt tol_dist_pos have "rho \<noteq> 0" by auto
            then have "move_speed_factor cfg \<noteq> 0 \<longrightarrow> linear_x m \<noteq> 0"
              unfolding lin by simp
            then have nz: "move_speed_factor cfg \<noteq> 0 \<longrightarrow> m \<noteq> Twist"
              by (auto simp: Twist_def)
            have "published s' = published s @ (m # cmds)" using ih(6) fr by simp
            moreover have "case r of Inl e \<Rightarrow> move_speed_factor cfg \<noteq> 0 \<longrightarrow> Twist \<notin> set (m # cmds)
                   | Inr v \<Rightarrow> True"
              using nz ih(7) by (cases r) auto
            ultimately have "\<exists>c. published s' = published s @ c
                \<and> (case r of Inl e \<Rightarrow> move_speed_factor cfg \<noteq> 0 \<longrightarrow> Twist \<notin> set c
                    | Inr v \<Rightarrow> True)"
              by blast
            with ih fr ini show ?thesis by simp
          qed
        qed
      qed
    qed
  qed
qed

section \<open>Runs on concrete sessions and the exits of a move\<close>

lemma snapshot_collided: "is_collided (snapshot hit a b) = hit"
  by (simp add: snapshot_def)

lemma cp_gt:
  "current_pose gt_config (snapshot hit (Some p) od) s
     = (Inr p, if initial_pose_tf_mat s = None then s\<lparr>initial_pose_tf_mat := Some p\<rparr> else s)"
  by (simp add: current_pose_def define_initial_pose_def gt_config_def example_config_def
        snapshot_def)

lemma cp_gt_fail:
  "current_pose gt_config (snapshot hit None od) s = (Inl LookupException, s)"
  by (simp add: current_pose_def define_initial_pose_def gt_config_def example_config_def
        snapshot_def)

lemma tr_level:
  "tr_b_wrt_a (at_xy x y) (at_xy x' y') = Inr (at_xy (x' - x) (y' - y))"
  by (simp add: tr_b_wrt_a_def linalg_inv_def matmul_def at_xy_def identity3_def Let_def)

lemma arctan2_simps:
  "arctan2 0 1 = 0" "arctan2 0 (- 1) = pi" "arctan2 0 0 = 0"
  by (simp_all add: arctan2_def)

lemma pi_wrap_0: "pi_wrap 0 = 0"
  using pi_wrap_fixed [of 0] by simp

lemma sf_gt: "move_speed_factor gt_config = 1"
  by (simp add: move_speed_factor_def gt_config_def example_config_def DEFAULT_SPEED_FACTOR_def)

lemma dist_level: "dist_from_a_to_b (at_xy x y) (at_xy x' y') = Inr (sqrt ((x' - x)\<^sup>2 + (y' - y)\<^sup>2))"
  by (simp add: dist_from_a_to_b_def tr_level) (simp add: at_xy_def power2_eq_square)

lemma rel_level: "ang_to_b_wrt_a (at_xy x y) (at_xy x' y') = Inr (arctan2 (y' - y) (x' - x))"
  by (simp add: ang_to_b_wrt_a_def tr_level) (simp add: at_xy_def)

lemma ang_level: "ang_to_b (at_xy x y) (at_xy x' y') = arctan2 (y' - y) (x' - x)"
  by (simp add: ang_to_b_def at_xy_def)

lemma yaw_level: "yaw (at_xy x y) = 0"
  by (simp add: yaw_def at_xy_def identity3_def euler_safe arctan2_simps)

lemma yaw_rel_level: "yaw_b_wrt_a (at_xy x y) (at_xy x' y') = Inr 0"
  by (simp add: yaw_b_wrt_a_def tr_level)
     (simp add: at_xy_def identity3_def euler_safe arctan2_simps)

lemma move_to_pose_cases:
  assumes "move_to_pose goal cfg ws s = Some (r, s')"
  shows "(\<exists>e. r = Inl e \<and> move_to_pose_loop goal cfg ws s = Some (Inl e, s'))
         \<or> (\<exists>s1. r = Inr None \<and> move_to_pose_loop goal cfg ws s = Some (Inr (), s1)
                \<and> s' = publish Twist s1)"
  using assms
  by (auto simp: move_to_pose_def split: option.splits prod.splits sum.splits)

lemma move_to_pose_effect:
  assumes "move_to_pose goal cfg ws s = Some (r, s')"
  shows "trajectory_pose_next s' = trajectory_pose_next s
     \<and> trajectory_poses s' = trajectory_poses s
     \<and> selected_environment s' = selected_environment s
     \<and> logerr s' = logerr s
     \<and> (\<forall>ip. initial_pose_tf_mat s = Some ip \<longrightarrow> initial_pose_tf_mat s' = Some ip)
     \<and> (\<exists>cmds. published s' = published s @ cmds
            \<and> (case r of Inl e \<Rightarrow> move_speed_factor cfg \<noteq> 0 \<longrightarrow> Twist \<notin> set cmds
                | Inr v \<Rightarrow> cmds \<noteq> [] \<and> last cmds = Twist))"
proof -
  from move_to_pose_cases [OF assms] show ?thesis
  proof (elim disjE exE conjE)
    fix e
    assume r: "r = Inl e" and l: "move_to_pose_loop goal cfg ws s = Some (Inl e, s')"
    from move_to_pose_loop_effect [OF l] r show ?thesis by simp
  next
    fix s1
    assume r: "r = Inr None" and l: "move_to_pose_loop goal cfg ws s = Some (Inr (), s1)"
      and s': "s' = publish Twist s1"
    from move_to_pose_loop_effect [OF l] obtain cmds where
      e: "trajectory_pose_next s1 = trajectory_pose_next s"
         "trajectory_poses s1 = trajectory_poses s"
         "selected_environment s1 = selected_environment s"
         "logerr s1 = logerr s"
         "\<forall>ip. initial_pose_tf_mat s = Some ip \<longrightarrow> initial_pose_tf_mat s1 = Some ip"
         "published s1 = published s @ cmds"
      by blast
    have "published s' = published s @ (cmds @ [Twist])"
      by (simp add: s' publish_simps e)
    moreover have "cmds @ [Twist] \<noteq> [] \<and> last (cmds @ [Twist]) = Twist" by simp
    ultimately have "\<exists>c. published s' = published s @ c \<and> c \<noteq> [] \<and> last c = Twist"
      by blast
    with e r s' show ?thesis by (simp add: publish_simps)
  qed
qed

lemma ends_with_zero:
  assumes "published s' = published s @ cmds" "cmds \<noteq> []" "last cmds = Twist"
  shows "\<exists>before. published s' = published s @ before @ [\<lparr>linear_x = 0, angular_z = 0\<rparr>]"
proof -
  from assms(2,3) have "cmds = butlast cmds @ [\<lparr>linear_x = 0, angular_z = 0\<rparr>]"
    by (metis append_butlast_last_id Twist_def)
  with assms(1) show ?thesis by metis
qed

text \<open>
  The exits of a move. Whenever \<open>_move_to_pose\<close> or \<open>_move_to_angle\<close> returns (the loop was
  left by convergence or by the collision signal), the last message it published is the
  zero velocity command. Whenever it is left by an exception instead (a transform lookup
  that fails inside the loop body, for one), nothing is published after the commands of
  the completed iterations, and with a nonzero speed factor none of those is the zero
  command.
\<close>

theorem move_final_zero_on_return:
  assumes "move_to_pose goal cfg ws s = Some (r, s') \<or> move_to_angle goal cfg ws s = Some (r, s')"
  shows "case r of
           Inr v \<Rightarrow> \<exists>before. published s' = published s @ before @ [\<lparr>linear_x = 0, angular_z = 0\<rparr>]
         | Inl e \<Rightarrow> \<exists>cmds. published s' = published s @ cmds
                     \<and> (move_speed_factor cfg \<noteq> 0 \<longrightarrow> \<lparr>linear_x = 0, angular_z = 0\<rparr> \<notin> set cmds)"
proof -
  from assms obtain cmds where p: "published s' = published s @ cmds"
    and c: "case r of Inl e \<Rightarrow> move_speed_factor cfg \<noteq> 0 \<longrightarrow> Twist \<notin> set cmds
                | Inr v \<Rightarrow> cmds \<noteq> [] \<and> last cmds = Twist"
    using move_to_pose_effect [of goal cfg ws s r s'] move_to_angle_effect [of goal cfg ws s r s']
    by blast
  show ?thesis
  proof (cases r)
    case (Inl e)
    with p c show ?thesis by (auto simp: Twist_def)
  next
    case (Inr v)
    with c have "cmds \<noteq> []" "last cmds = Twist" by simp_all
    from ends_with_zero [OF p this] Inr show ?thesis by simp
  qed
qed

text \<open>
  A run of \<open>_move_to_pose\<close> that returns on the collision signal of its second tick, and a
  run of \<open>_move_to_angle\<close> whose first lookup fails.
\<close>

theorem move_final_zero_on_return_witness:
  "move_to_pose (at_xy 1 0) gt_config
     [snapshot False (Some (at_xy 0 0)) None, snapshot True (Some (at_xy 0 0)) None]
     fresh_controller
   = Some (Inr None,
        fresh_controller\<lparr>initial_pose_tf_mat := Some (at_xy 0 0),
           published := [\<lparr>linear_x = 7 / 10, angular_z = 0\<rparr>,
                         \<lparr>linear_x = 0, angular_z = 0\<rparr>]\<rparr>)
   \<and> (\<exists>before. [\<lparr>linear_x = 7 / 10, angular_z = 0\<rparr>, \<lparr>linear_x = 0, angular_z = 0\<rparr>]
          = before @ [\<lparr>linear_x = 0, angular_z = 0\<rparr>])
   \<and> move_to_angle (at_xy 0 0) gt_config [snapshot False None None] fresh_controller
       = Some (Inl LookupException, fresh_controller)
   \<and> move_speed_factor gt_config \<noteq> 0
   \<and> (\<exists>cmds. published fresh_controller = published fresh_controller @ cmds
          \<and> \<lparr>linear_x = 0, angular_z = 0\<rparr> \<notin> set cmds)"
proof -
  have t: "\<not> (1::real) < MOVE_TOL_DIST" by (simp add: MOVE_TOL_DIST_def)
  have run: "move_to_pose (at_xy 1 0) gt_config
     [snapshot False (Some (at_xy 0 0)) None, snapshot True (Some (at_xy 0 0)) None]
     fresh_controller
   = Some (Inr None,
        fresh_controller\<lparr>initial_pose_tf_mat := Some (at_xy 0 0),
           published := [\<lparr>linear_x = 7 / 10, angular_z = 0\<rparr>,
                         \<lparr>linear_x = 0, angular_z = 0\<rparr>]\<rparr>)"
    by (simp add: move_to_pose_def snapshot_collided cp_gt cp_gt_fail dist_level rel_level
        ang_level yaw_level t sf_gt pi_wrap_0 arctan2_simps Let_def
        fresh_controller_def publish_def MOVE_POSE_K_RHO_def Twist_def)
  have fail: "move_to_angle (at_xy 0 0) gt_config [snapshot False None None] fresh_controller
       = Some (Inl LookupException, fresh_controller)"
    by (simp add: move_to_angle_def snapshot_collided cp_gt_fail)
  have a: "\<exists>before. [\<lparr>linear_x = 7 / 10, angular_z = 0\<rparr>, \<lparr>linear_x = 0, angular_z = 0\<rparr>]
          = before @ [\<lparr>linear_x = 0, angular_z = (0::real)\<rparr>]"
    using move_final_zero_on_return [OF disjI1, OF run] by (simp add: fresh_controller_def)
  have b: "\<exists>cmds. published fresh_controller = published fresh_controller @ cmds
          \<and> \<lparr>linear_x = 0, angular_z = 0\<rparr> \<notin> set cmds"
    using move_final_zero_on_return [OF disjI2, OF fail] by (simp add: sf_gt)
  from run fail a b show ?thesis by (simp add: sf_gt)
qed

text \<open>
  Claim C4, as amended. If the collision signal is true on the first tick of a move, the
  move returns, having published exactly one velocity command, the zero command, and
  having changed nothing else; no nonzero command is published. The value returned is
  Python's \<open>None\<close>: the source returns no outcome.
\<close>

theorem collision_on_first_tick:
  assumes "is_collided w"
  shows "move_to_pose goal cfg (w # ws) s
           = Some (Inr None, s\<lparr>published := published s @ [\<lparr>linear_x = 0, angular_z = 0\<rparr>]\<rparr>)
         \<and> move_to_angle goal cfg (w # ws) s
           = Some (Inr None, s\<lparr>published := published s @ [\<lparr>linear_x = 0, angular_z = 0\<rparr>]\<rparr>)"
  using assms by (simp add: move_to_pose_def move_to_angle_def publish_def Twist_def)

theorem collision_on_first_tick_witness:
  "is_collided (snapshot True (Some (at_xy 0 0)) None)
   \<and> move_to_pose (at_xy 1 0) gt_config [snapshot True (Some (at_xy 0 0)) None] fresh_controller
       = Some (Inr None, fresh_controller\<lparr>published := [\<lparr>linear_x = 0, angular_z = 0\<rparr>]\<rparr>)"
proof -
  have c: "is_collided (snapshot True (Some (at_xy 0 0)) None)" by (simp add: snapshot_collided)
  from c collision_on_first_tick [OF c, of "at_xy 1 0" gt_config "[]" fresh_controller]
  show ?thesis by (simp add: fresh_controller_def)
qed

text \<open>
  Claim C4 as stated has the move return the outcome \<open>collided\<close>. The value returned after a
  collision on the first tick is \<open>None\<close>, the same as after a run that converges at once.
\<close>

theorem collision_outcome_counterexample:
  "map_option fst (move_to_pose (at_xy 1 0) gt_config
      [snapshot True (Some (at_xy 0 0)) None] fresh_controller) = Some (Inr None)
   \<and> map_option fst (move_to_pose (at_xy 1 0) gt_config
      [snapshot True (Some (at_xy 0 0)) None] fresh_controller) \<noteq> Some (Inr (Some collided))
   \<and> map_option fst (move_to_pose (at_xy 1 0) gt_config
      [snapshot False (Some (at_xy 1 0)) None] fresh_controller) = Some (Inr None)"
proof -
  have t: "(0::real) < MOVE_TOL_DIST" "(0::real) < MOVE_TOL_YAW"
    by (rule tol_dist_pos, rule tol_yaw_pos)
  have a: "map_option fst (move_to_pose (at_xy 1 0) gt_config
      [snapshot True (Some (at_xy 0 0)) None] fresh_controller) = Some (Inr None)"
    by (simp add: move_to_pose_def snapshot_collided)
  have b: "map_option fst (move_to_pose (at_xy 1 0) gt_config
      [snapshot False (Some (at_xy 1 0)) None] fresh_controller) = Some (Inr None)"
    by (simp add: move_to_pose_def move_to_angle_def snapshot_collided cp_gt dist_level
        rel_level yaw_rel_level t Let_def fresh_controller_def)
  show ?thesis unfolding a b by simp
qed

section \<open>The control law of the drive-to-pose loop\<close>

lemma pi_wrap_values: "pi_wrap pi = - pi" "pi_wrap (- pi) = - pi"
  using pi_wrap_fixed [of "- pi"] by (simp_all add: pi_wrap_def np_mod_def)

lemma dist_level_x:
  assumes "0 \<le> d"
  shows "dist_from_a_to_b (at_xy 0 0) (at_xy (- d) 0) = Inr d"
  using assms by (simp add: dist_level)

lemma rel_level_behind:
  assumes "0 < d"
  shows "ang_to_b_wrt_a (at_xy 0 0) (at_xy (- d) 0) = Inr pi"
    and "ang_to_b (at_xy 0 0) (at_xy (- d) 0) = pi"
  using assms by (simp_all add: rel_level ang_level arctan2_def)

text \<open>
  Claim C5, as amended. On every tick of \<open>_move_to_pose\<close> that is not terminal (no
  collision, the pose estimator returns \<open>c\<close>, and \<open>rho\<close> is not below the distance tolerance
  0.01), with \<open>rho = distance(c, g)\<close>, \<open>alpha = wrap(bearing(c, g) - yaw(c))\<close>,
  \<open>beta = wrap(yaw(g) - bearing(c, g))\<close> and \<open>reverse\<close> the test
  \<open>|bearingRelative(c, g)| > \<pi>/2\<close>, the loop publishes one command and goes on to the
  next tick; the command has \<open>linear = speed_factor * (-1 if reverse else +1) * 0.7 * rho\<close>
  and \<open>angular = speed_factor * (7.5 * alpha' + (-3) * beta')\<close>, where \<open>alpha'\<close> and \<open>beta'\<close>
  are \<open>alpha\<close> and \<open>beta\<close> on a forward tick and \<open>wrap(alpha + \<pi>)\<close> and \<open>wrap(beta + \<pi>)\<close>
  on a reverse tick.
\<close>

theorem drive_to_pose_command:
  assumes "\<not> is_collided w"
    and "current_pose cfg w s = (Inr c, s1)"
    and "dist_from_a_to_b c g = Inr rho"
    and "ang_to_b_wrt_a c g = Inr rel"
    and "\<not> rho < 1 / 100"
  shows "let alpha = pi_wrap (ang_to_b c g - yaw c);
             beta = pi_wrap (yaw g - ang_to_b c g);
             reverse = (pi / 2 < \<bar>rel\<bar>);
             alpha' = (if reverse then pi_wrap (alpha + pi) else alpha);
             beta' = (if reverse then pi_wrap (beta + pi) else beta)
         in \<exists>m. move_to_pose_loop g cfg (w # ws) s = move_to_pose_loop g cfg ws (publish m s1)
              \<and> linear_x m = move_speed_factor cfg * (if reverse then - 1 else 1) * (7 / 10) * rho
              \<and> angular_z m = move_speed_factor cfg * (15 / 2 * alpha' + (- 3) * beta')"
proof -
  from assms(5) have "\<not> rho < MOVE_TOL_DIST" by (simp add: MOVE_TOL_DIST_def)
  from move_to_pose_loop_tick [OF assms(1-4) this, of ws] show ?thesis
    by (simp add: Let_def)
qed

theorem drive_to_pose_command_witness:
  "\<not> is_collided (snapshot False (Some (at_xy 0 0)) None)
   \<and> current_pose gt_config (snapshot False (Some (at_xy 0 0)) None) fresh_controller
       = (Inr (at_xy 0 0), fresh_controller\<lparr>initial_pose_tf_mat := Some (at_xy 0 0)\<rparr>)
   \<and> dist_from_a_to_b (at_xy 0 0) (at_xy 1 0) = Inr 1
   \<and> ang_to_b_wrt_a (at_xy 0 0) (at_xy 1 0) = Inr 0
   \<and> \<not> (1::real) < 1 / 100
   \<and> (\<exists>m. move_to_pose_loop (at_xy 1 0) gt_config
              [snapshot False (Some (at_xy 0 0)) None, snapshot True (Some (at_xy 0 0)) None]
              fresh_controller
            = Some (Inr (),
                publish m (fresh_controller\<lparr>initial_pose_tf_mat := Some (at_xy 0 0)\<rparr>))
          \<and> linear_x m = 7 / 10 \<and> angular_z m = 0)"
proof -
  have 1: "\<not> is_collided (snapshot False (Some (at_xy 0 0)) None)"
    by (simp add: snapshot_collided)
  have 2: "current_pose gt_config (snapshot False (Some (at_xy 0 0)) None) fresh_controller
       = (Inr (at_xy 0 0), fresh_controller\<lparr>initial_pose_tf_mat := Some (at_xy 0 0)\<rparr>)"
    by (simp add: cp_gt fresh_controller_def)
  have 3: "dist_from_a_to_b (at_xy 0 0) (at_xy 1 0) = Inr 1" by (simp add: dist_level)
  have 4: "ang_to_b_wrt_a (at_xy 0 0) (at_xy 1 0) = Inr 0"
    by (simp add: rel_level arctan2_simps)
  have 5: "\<not> (1::real) < 1 / 100" by simp
  have stop: "\<And>s. move_to_pose_loop (at_xy 1 0) gt_config
      [snapshot True (Some (at_xy 0 0)) None] s = Some (Inr (), s)"
    by (simp add: snapshot_collided)
  from drive_to_pose_command [OF 1 2 3 4 5, of "[snapshot True (Some (at_xy 0 0)) None]"]
  have "\<exists>m. move_to_pose_loop (at_xy 1 0) gt_config
              [snapshot False (Some (at_xy 0 0)) None, snapshot True (Some (at_xy 0 0)) None]
              fresh_controller
            = Some (Inr (),
                publish m (fresh_controller\<lparr>initial_pose_tf_mat := Some (at_xy 0 0)\<rparr>))
          \<and> linear_x m = 7 / 10 \<and> angular_z m = 0"
    unfolding stop by (simp add: Let_def ang_level yaw_level arctan2_simps pi_wrap_0 sf_gt)
  with 1 2 3 4 5 show ?thesis by blast
qed

text \<open>
  Claim C5 as stated uses \<open>alpha\<close> and \<open>beta\<close> themselves in the angular velocity on every
  tick. With the robot at the origin and the goal at \<open>(-1, 0)\<close>, both level, the tick is a
  reverse tick: the command published is \<open>(-0.7, 0)\<close>, while
  \<open>speed_factor * (7.5 * alpha + (-3) * beta)\<close> is \<open>-4.5 \<pi>\<close>.
\<close>

theorem drive_to_pose_command_counterexample:
  "move_to_pose (at_xy (- 1) 0) gt_config
     [snapshot False (Some (at_xy 0 0)) None, snapshot True (Some (at_xy 0 0)) None]
     fresh_controller
   = Some (Inr None,
        fresh_controller\<lparr>initial_pose_tf_mat := Some (at_xy 0 0),
           published := [\<lparr>linear_x = - (7 / 10), angular_z = 0\<rparr>,
                         \<lparr>linear_x = 0, angular_z = 0\<rparr>]\<rparr>)
   \<and> move_speed_factor gt_config
       * (15 / 2 * pi_wrap (ang_to_b (at_xy 0 0) (at_xy (- 1) 0) - yaw (at_xy 0 0))
          + (- 3) * pi_wrap (yaw (at_xy (- 1) 0) - ang_to_b (at_xy 0 0) (at_xy (- 1) 0)))
     = - (9 / 2) * pi
   \<and> - (9 / 2) * pi \<noteq> 0"
proof -
  have t: "\<not> (1::real) < MOVE_TOL_DIST" by (simp add: MOVE_TOL_DIST_def)
  have run: "move_to_pose (at_xy (- 1) 0) gt_config
     [snapshot False (Some (at_xy 0 0)) None, snapshot True (Some (at_xy 0 0)) None]
     fresh_controller
   = Some (Inr None,
        fresh_controller\<lparr>initial_pose_tf_mat := Some (at_xy 0 0),
           published := [\<lparr>linear_x = - (7 / 10), angular_z = 0\<rparr>,
                         \<lparr>linear_x = 0, angular_z = 0\<rparr>]\<rparr>)"
    using dist_level_x [of 1] rel_level_behind [of 1]
    by (simp add: move_to_pose_def snapshot_collided cp_gt yaw_level t sf_gt
        pi_wrap_0 pi_wrap_values Let_def fresh_controller_def publish_def Twist_def
        MOVE_POSE_K_RHO_def)
  have f: "move_speed_factor gt_config
       * (15 / 2 * pi_wrap (ang_to_b (at_xy 0 0) (at_xy (- 1) 0) - yaw (at_xy 0 0))
          + (- 3) * pi_wrap (yaw (at_xy (- 1) 0) - ang_to_b (at_xy 0 0) (at_xy (- 1) 0)))
     = - (9 / 2) * pi"
    using rel_level_behind(2) [of 1] by (simp add: yaw_level sf_gt pi_wrap_values)
  from run f show ?thesis by simp
qed

text \<open>
  Claim C6, as amended. Whenever \<open>|bearingRelative(current, goal)| > \<pi>/2\<close> on a tick that
  is not terminal (\<open>rho\<close> not below the distance tolerance 0.01), the command published
  has the reversed sign in its linear velocity, \<open>- speed_factor * 0.7 * rho\<close>, and uses
  \<open>wrap(alpha + \<pi>)\<close> and \<open>wrap(beta + \<pi>)\<close> in place of \<open>alpha\<close> and \<open>beta\<close>; with a
  positive speed factor the linear velocity is negative.
\<close>

theorem reverse_when_goal_behind:
  assumes "\<not> is_collided w"
    and "current_pose cfg w s = (Inr c, s1)"
    and "dist_from_a_to_b c g = Inr rho"
    and "ang_to_b_wrt_a c g = Inr rel"
    and "pi / 2 < \<bar>rel\<bar>"
    and "\<not> rho < 1 / 100"
  shows "\<exists>m. move_to_pose_loop g cfg (w # ws) s = move_to_pose_loop g cfg ws (publish m s1)
           \<and> linear_x m = - (move_speed_factor cfg * (7 / 10) * rho)
           \<and> angular_z m = move_speed_factor cfg
                * (15 / 2 * pi_wrap (pi_wrap (ang_to_b c g - yaw c) + pi)
                   + (- 3) * pi_wrap (pi_wrap (yaw g - ang_to_b c g) + pi))
           \<and> (0 < move_speed_factor cfg \<longrightarrow> linear_x m < 0)"
proof -
  from assms(6) have nt: "\<not> rho < MOVE_TOL_DIST" by (simp add: MOVE_TOL_DIST_def)
  from move_to_pose_loop_tick [OF assms(1-4) nt, of ws] assms(5)
  obtain m where m: "move_to_pose_loop g cfg (w # ws) s
        = move_to_pose_loop g cfg ws (publish m s1)"
      "linear_x m = - (move_speed_factor cfg * (7 / 10) * rho)"
      "angular_z m = move_speed_factor cfg
                * (15 / 2 * pi_wrap (pi_wrap (ang_to_b c g - yaw c) + pi)
                   + (- 3) * pi_wrap (pi_wrap (yaw g - ang_to_b c g) + pi))"
    by auto
  from assms(6) have "0 < rho" by simp
  then have "0 < move_speed_factor cfg \<longrightarrow> linear_x m < 0"
    unfolding m(2) by simp
  with m show ?thesis by blast
qed

theorem reverse_when_goal_behind_witness:
  "\<not> is_collided (snapshot False (Some (at_xy 0 0)) None)
   \<and> current_pose gt_config (snapshot False (Some (at_xy 0 0)) None) fresh_controller
       = (Inr (at_xy 0 0), fresh_controller\<lparr>initial_pose_tf_mat := Some (at_xy 0 0)\<rparr>)
   \<and> dist_from_a_to_b (at_xy 0 0) (at_xy (- 2) 0) = Inr 2
   \<and> ang_to_b_wrt_a (at_xy 0 0) (at_xy (- 2) 0) = Inr pi
   \<and> pi / 2 < \<bar>pi\<bar>
   \<and> \<not> (2::real) < 1 / 100
   \<and> 0 < move_speed_factor gt_config
   \<and> (\<exists>m. move_to_pose_loop (at_xy (- 2) 0) gt_config
              [snapshot False (Some (at_xy 0 0)) None, snapshot True (Some (at_xy 0 0)) None]
              fresh_controller
            = Some (Inr (),
                publish m (fresh_controller\<lparr>initial_pose_tf_mat := Some (at_xy 0 0)\<rparr>))
          \<and> linear_x m = - (7 / 5) \<and> linear_x m < 0)"
proof -
  have 1: "\<not> is_collided (snapshot False (Some (at_xy 0 0)) None)"
    by (simp add: snapshot_collided)
  have 2: "current_pose gt_config (snapshot False (Some (at_xy 0 0)) None) fresh_controller
       = (Inr (at_xy 0 0), fresh_controller\<lparr>initial_pose_tf_mat := Some (at_xy 0 0)\<rparr>)"
    by (simp add: cp_gt fresh_controller_def)
  have 3: "dist_from_a_to_b (at_xy 0 0) (at_xy (- 2) 0) = Inr 2"
    using dist_level_x [of 2] by simp
  have 4: "ang_to_b_wrt_a (at_xy 0 0) (at_xy (- 2) 0) = Inr pi"
    using rel_level_behind(1) [of 2] by simp
  have 5: "pi / 2 < \<bar>pi\<bar>" by simp
  have 6: "\<not> (2::real) < 1 / 100" by simp
  have stop: "\<And>s. move_to_pose_loop (at_xy (- 2) 0) gt_config
      [snapshot True (Some (at_xy 0 0)) None] s = Some (Inr (), s)"
    by (simp add: snapshot_collided)
  from reverse_when_goal_behind [OF 1 2 3 4 5 6, of "[snapshot True (Some (at_xy 0 0)) None]"]
  obtain m where m: "move_to_pose_loop (at_xy (- 2) 0) gt_config
              [snapshot False (Some (at_xy 0 0)) None, snapshot True (Some (at_xy 0 0)) None]
              fresh_controller
            = Some (Inr (),
                publish m (fresh_controller\<lparr>initial_pose_tf_mat := Some (at_xy 0 0)\<rparr>))"
      "linear_x m = - (move_speed_factor gt_config * (7 / 10) * 2)"
      "0 < move_speed_factor gt_config \<longrightarrow> linear_x m < 0"
    unfolding stop by blast
  from m(2) have "linear_x m = - (7 / 5)" by (simp add: sf_gt)
  with m(1) have "\<exists>m. move_to_pose_loop (at_xy (- 2) 0) gt_config
              [snapshot False (Some (at_xy 0 0)) None, snapshot True (Some (at_xy 0 0)) None]
              fresh_controller
            = Some (Inr (),
                publish m (fresh_controller\<lparr>initial_pose_tf_mat := Some (at_xy 0 0)\<rparr>))
          \<and> linear_x m = - (7 / 5) \<and> linear_x m < 0"
    by (intro exI [of _ m]) simp
  moreover have "0 < move_speed_factor gt_config" by (simp add: sf_gt)
  ultimately show ?thesis using 1 2 3 4 5 6 by blast
qed

text \<open>
  Claim C6 as stated promises a negative linear velocity for every positive \<open>rho\<close>. With
  the goal 5 millimetres straight behind the robot, the goal is flagged as behind and
  \<open>rho = 0.005\<close> is positive, but the tick is terminal: the loop hands over to
  \<open>_move_to_angle\<close>, and the only commands published are two zero commands.
\<close>

theorem reverse_when_goal_behind_counterexample:
  "ang_to_b_wrt_a (at_xy 0 0) (at_xy (- (1 / 200)) 0) = Inr pi
   \<and> pi / 2 < \<bar>pi\<bar>
   \<and> dist_from_a_to_b (at_xy 0 0) (at_xy (- (1 / 200)) 0) = Inr (1 / 200)
   \<and> 0 < move_speed_factor gt_config
   \<and> move_to_pose (at_xy (- (1 / 200)) 0) gt_config
        [snapshot False (Some (at_xy 0 0)) None] fresh_controller
      = Some (Inr None,
          fresh_controller\<lparr>initial_pose_tf_mat := Some (at_xy 0 0),
             published := [\<lparr>linear_x = 0, angular_z = 0\<rparr>, \<lparr>linear_x = 0, angular_z = 0\<rparr>]\<rparr>)"
proof -
  note t = MOVE_TOL_DIST_def tol_yaw_pos
  have d: "dist_from_a_to_b (at_xy 0 0) (at_xy (- (1 / 200)) 0) = Inr (1 / 200)"
    using dist_level_x [of "1 / 200"] by simp
  have r: "ang_to_b_wrt_a (at_xy 0 0) (at_xy (- (1 / 200)) 0) = Inr pi"
    using rel_level_behind(1) [of "1 / 200"] by simp
  have run: "move_to_pose (at_xy (- (1 / 200)) 0) gt_config
        [snapshot False (Some (at_xy 0 0)) None] fresh_controller
      = Some (Inr None,
          fresh_controller\<lparr>initial_pose_tf_mat := Some (at_xy 0 0),
             published := [\<lparr>linear_x = 0, angular_z = 0\<rparr>, \<lparr>linear_x = 0, angular_z = 0\<rparr>]\<rparr>)"
    by (simp add: move_to_pose_def move_to_angle_def snapshot_collided cp_gt d r t
        yaw_rel_level Let_def fresh_controller_def publish_def Twist_def)
  from d r run show ?thesis by (simp add: sf_gt)
qed

section \<open>The orientation-only loop\<close>

lemma pi_wrap_unique:
  assumes "- pi \<le> y" "y < pi" "y = x + 2 * pi * of_int n"
  shows "pi_wrap x = y"
proof -
  obtain k :: int where k: "pi_wrap x = x + 2 * pi * of_int k"
    using pi_wrap_shift by blast
  have r: "- pi \<le> pi_wrap x" "pi_wrap x < pi" using pi_wrap_range [of x] by simp_all
  have d: "pi_wrap x - y = 2 * pi * of_int (k - n)"
    by (simp add: k assms(3) algebra_simps)
  have "k - n = 0"
  proof (rule ccontr)
    assume "k - n \<noteq> 0"
    then have "k - n \<le> - 1 \<or> 1 \<le> k - n" by linarith
    then show False
    proof
      assume "k - n \<le> - 1"
      then have "(of_int (k - n) :: real) \<le> - 1" by linarith
      then have "2 * pi * of_int (k - n) \<le> 2 * pi * (- 1)"
        by (intro mult_left_mono) simp_all
      with d r assms(1,2) show False by linarith
    next
      assume "1 \<le> k - n"
      then have "(1::real) \<le> of_int (k - n)" by linarith
      then have "2 * pi * 1 \<le> 2 * pi * of_int (k - n)"
        by (intro mult_left_mono) simp_all
      with d r assms(1,2) show False by linarith
    qed
  qed
  with d show ?thesis by simp
qed

lemma planar_yaw:
  assumes "c\<^sup>2 + s\<^sup>2 = 1"
  shows "cos (yaw \<lparr>rot = ((c, - s, 0), (s, c, 0), (0, 0, 1)), trans = t\<rparr>) = c"
    and "sin (yaw \<lparr>rot = ((c, - s, 0), (s, c, 0), (0, 0, 1)), trans = t\<rparr>) = s"
  using euler_unit [OF assms] by (simp_all add: yaw_def)

lemma planar_yaw_b_wrt_a:
  assumes "planar a" "planar b"
  shows "yaw_b_wrt_a a b = Inr (pi_wrap (yaw b - yaw a))"
proof -
  obtain c s x y z where a: "a = \<lparr>rot = ((c, - s, 0), (s, c, 0), (0, 0, 1)), trans = (x, y, z)\<rparr>"
    and u: "c\<^sup>2 + s\<^sup>2 = 1" by (rule planar_shape [OF assms(1)])
  obtain c' s' x' y' z' where b: "b = \<lparr>rot = ((c', - s', 0), (s', c', 0), (0, 0, 1)), trans = (x', y', z')\<rparr>"
    and u': "c'\<^sup>2 + s'\<^sup>2 = 1" by (rule planar_shape [OF assms(2)])
  define C where "C = c * c' + s * s'"
  define S where "S = c * s' - s * c'"
  define E where "E = euler_XYZ_z ((C, - S, 0), (S, C, 0), (0, 0, 1))"
  have "C\<^sup>2 + S\<^sup>2 = (c\<^sup>2 + s\<^sup>2) * (c'\<^sup>2 + s'\<^sup>2)"
    by (simp add: C_def S_def power2_eq_square algebra_simps)
  with u u' have unit: "C\<^sup>2 + S\<^sup>2 = 1" by simp
  from euler_unit [OF unit] have E: "cos E = C" "sin E = S" "- pi \<le> E" "E < pi"
    by (simp_all add: E_def)
  have rel: "yaw_b_wrt_a a b = Inr E"
    unfolding a b yaw_b_wrt_a_def planar_tr_b_wrt_a [OF u] E_def C_def S_def by simp
  have "sin E = sin (yaw b - yaw a) \<and> cos E = cos (yaw b - yaw a)"
    unfolding a b by (simp add: sin_diff cos_diff planar_yaw [OF u] planar_yaw [OF u'] E
        C_def S_def algebra_simps)
  then obtain n :: int where "E = (yaw b - yaw a) + 2 * pi * of_int n"
    using sin_cos_eq_iff [of E "yaw b - yaw a"] by blast
  with E(3,4) have "pi_wrap (yaw b - yaw a) = E" by (rule pi_wrap_unique)
  with rel show ?thesis by simp
qed

lemma planar_examples: "planar (at_xy x y)" "planar quarter_turn" "planar half_turn"
  by (simp_all add: planar_def at_xy_def identity3_def quarter_turn_def half_turn_def)

lemma yaw_turns: "yaw quarter_turn = pi / 2" "yaw half_turn = - pi"
  by (simp_all add: yaw_def quarter_turn_def half_turn_def euler_safe arctan2_def)

lemma yaw_rel_turns:
  "yaw_b_wrt_a (at_xy 0 0) quarter_turn = Inr (pi / 2)"
  "yaw_b_wrt_a (at_xy 0 0) half_turn = Inr (- pi)"
  by (simp_all add: yaw_b_wrt_a_def tr_b_wrt_a_def linalg_inv_def matmul_def at_xy_def
        identity3_def quarter_turn_def half_turn_def Let_def euler_safe arctan2_def)

lemma tilted_rotation: "is_rotation (rot tilted)"
  by (simp add: is_rotation_def tilted_def identity3_def)

lemma yaw_tilted: "yaw tilted = 0"
  by (simp add: yaw_def tilted_def euler_safe arctan2_def)

lemma yaw_rel_tilted: "yaw_b_wrt_a tilted (at_xy 0 0) = Inr (- arctan (25 / 156))"
proof -
  have "tr_b_wrt_a tilted (at_xy 0 0)
      = Inr \<lparr>rot = ((12 / 13, 25 / 169, - (60 / 169)),
                     (0, 12 / 13, 5 / 13),
                     (5 / 13, - (60 / 169), 144 / 169)),
              trans = (0, 0, 0)\<rparr>"
    by (simp add: tr_b_wrt_a_def linalg_inv_def matmul_def tilted_def at_xy_def
          identity3_def Let_def)
  moreover have "arctan2 (25 / 169) (- (12 / 13)) = pi - arctan (25 / 156)"
    by (simp add: arctan2_def arctan_minus)
  moreover have "arctan (25 / 156) < pi" using arctan_ubound [of "25 / 156"] pi_gt_zero by linarith
  ultimately show ?thesis by (simp add: yaw_b_wrt_a_def euler_safe)
qed

text \<open>
  Claim C9, as amended. On every tick of \<open>_move_to_angle\<close> the loop stops at once if the
  collision signal is true. Otherwise its error is the yaw of the goal relative to the
  current pose; if \<open>|error|\<close> is below the yaw tolerance \<open>\<pi>/180\<close> (1 degree) the loop stops
  without publishing, and if not it publishes the angular velocity
  \<open>speed_factor * 3 * error\<close> (linear velocity 0) and goes on to the next tick. For planar
  poses the error equals \<open>wrap(yaw(goal) - yaw(current))\<close>.
\<close>

theorem orientation_tick:
  "(is_collided w \<longrightarrow> move_to_angle_loop g cfg (w # ws) s = Some (Inr (), s))
   \<and> (\<not> is_collided w \<and> current_pose cfg w s = (Inr c, s1) \<and> yaw_b_wrt_a c g = Inr err
        \<longrightarrow> (\<bar>err\<bar> < pi / 180
               \<longrightarrow> move_to_angle_loop g cfg (w # ws) s = Some (Inr (), s1))
          \<and> (\<not> \<bar>err\<bar> < pi / 180
               \<longrightarrow> move_to_angle_loop g cfg (w # ws) s
                     = move_to_angle_loop g cfg ws
                         (publish \<lparr>linear_x = 0,
                                   angular_z = move_speed_factor cfg * 3 * err\<rparr> s1))
          \<and> (planar c \<and> planar g \<longrightarrow> err = pi_wrap (yaw g - yaw c)))"
proof -
  have tol: "MOVE_TOL_YAW = pi / 180" by (simp add: MOVE_TOL_YAW_def deg2rad_def)
  have a: "is_collided w \<longrightarrow> move_to_angle_loop g cfg (w # ws) s = Some (Inr (), s)"
    by simp
  have b: "\<bar>err\<bar> < pi / 180 \<longrightarrow> move_to_angle_loop g cfg (w # ws) s = Some (Inr (), s1)"
    if "\<not> is_collided w" "current_pose cfg w s = (Inr c, s1)" "yaw_b_wrt_a c g = Inr err"
    using that by (simp add: tol)
  have c: "\<not> \<bar>err\<bar> < pi / 180 \<longrightarrow> move_to_angle_loop g cfg (w # ws) s
             = move_to_angle_loop g cfg ws
                 (publish \<lparr>linear_x = 0, angular_z = move_speed_factor cfg * 3 * err\<rparr> s1)"
    if "\<not> is_collided w" "current_pose cfg w s = (Inr c, s1)" "yaw_b_wrt_a c g = Inr err"
    using that by (simp add: tol MOVE_ANGLE_K_def)
  have d: "err = pi_wrap (yaw g - yaw c)"
    if y: "yaw_b_wrt_a c g = Inr err" and p: "planar c" "planar g"
    using planar_yaw_b_wrt_a [OF p] y by simp
  from a b c d show ?thesis by blast
qed

theorem orientation_tick_witness:
  "is_collided (snapshot True (Some (at_xy 0 0)) None)
   \<and> move_to_angle_loop quarter_turn gt_config [snapshot True (Some (at_xy 0 0)) None]
        fresh_controller = Some (Inr (), fresh_controller)
   \<and> \<not> is_collided (snapshot False (Some (at_xy 0 0)) None)
   \<and> current_pose gt_config (snapshot False (Some (at_xy 0 0)) None) fresh_controller
       = (Inr (at_xy 0 0), fresh_controller\<lparr>initial_pose_tf_mat := Some (at_xy 0 0)\<rparr>)
   \<and> yaw_b_wrt_a (at_xy 0 0) quarter_turn = Inr (pi / 2)
   \<and> \<not> \<bar>pi / 2\<bar> < pi / 180
   \<and> move_to_angle_loop quarter_turn gt_config
        [snapshot False (Some (at_xy 0 0)) None, snapshot True (Some (at_xy 0 0)) None]
        fresh_controller
       = Some (Inr (),
           publish \<lparr>linear_x = 0, angular_z = 3 * (pi / 2)\<rparr>
             (fresh_controller\<lparr>initial_pose_tf_mat := Some (at_xy 0 0)\<rparr>))
   \<and> planar (at_xy 0 0) \<and> planar quarter_turn
   \<and> pi / 2 = pi_wrap (yaw quarter_turn - yaw (at_xy 0 0))
   \<and> yaw_b_wrt_a (at_xy 0 0) (at_xy 3 4) = Inr 0
   \<and> \<bar>0\<bar> < pi / 180
   \<and> move_to_angle_loop (at_xy 3 4) gt_config [snapshot False (Some (at_xy 0 0)) None]
        fresh_controller
       = Some (Inr (), fresh_controller\<lparr>initial_pose_tf_mat := Some (at_xy 0 0)\<rparr>)"
proof -
  define S1 where "S1 = fresh_controller\<lparr>initial_pose_tf_mat := Some (at_xy 0 0)\<rparr>"
  have 0: "is_collided (snapshot True (Some (at_xy 0 0)) None)" by (simp add: snapshot_collided)
  have 1: "\<not> is_collided (snapshot False (Some (at_xy 0 0)) None)"
    by (simp add: snapshot_collided)
  have 2: "current_pose gt_config (snapshot False (Some (at_xy 0 0)) None) fresh_controller
       = (Inr (at_xy 0 0), S1)"
    by (simp add: cp_gt fresh_controller_def S1_def)
  note 3 = yaw_rel_turns(1)
  have 4: "\<not> \<bar>pi / 2\<bar> < pi / 180" by simp
  note 5 = planar_examples(1) [of 0 0] planar_examples(2)
  note 6 = yaw_rel_level [of 0 0 3 4]
  have 7: "\<bar>0\<bar> < pi / 180" by simp
  note A = orientation_tick [of "snapshot True (Some (at_xy 0 0)) None" quarter_turn gt_config
      "[]" fresh_controller "at_xy 0 0" fresh_controller 0]
  note B = orientation_tick [of "snapshot False (Some (at_xy 0 0)) None" quarter_turn gt_config
      "[snapshot True (Some (at_xy 0 0)) None]" fresh_controller "at_xy 0 0" S1 "pi / 2"]
  note C = orientation_tick [of "snapshot False (Some (at_xy 0 0)) None" "at_xy 3 4" gt_config
      "[]" fresh_controller "at_xy 0 0" S1 0]
  have a: "move_to_angle_loop quarter_turn gt_config [snapshot True (Some (at_xy 0 0)) None]
        fresh_controller = Some (Inr (), fresh_controller)"
    using A 0 by blast
  have "move_to_angle_loop quarter_turn gt_config
        [snapshot False (Some (at_xy 0 0)) None, snapshot True (Some (at_xy 0 0)) None]
        fresh_controller
       = move_to_angle_loop quarter_turn gt_config [snapshot True (Some (at_xy 0 0)) None]
           (publish \<lparr>linear_x = 0, angular_z = move_speed_factor gt_config * 3 * (pi / 2)\<rparr> S1)"
    using B 1 2 3 4 by blast
  then have b: "move_to_angle_loop quarter_turn gt_config
        [snapshot False (Some (at_xy 0 0)) None, snapshot True (Some (at_xy 0 0)) None]
        fresh_controller
       = Some (Inr (), publish \<lparr>linear_x = 0, angular_z = 3 * (pi / 2)\<rparr> S1)"
    by (simp add: sf_gt snapshot_collided)
  have c: "pi / 2 = pi_wrap (yaw quarter_turn - yaw (at_xy 0 0))"
    using B 1 2 3 5 by blast
  have d: "move_to_angle_loop (at_xy 3 4) gt_config [snapshot False (Some (at_xy 0 0)) None]
        fresh_controller = Some (Inr (), S1)"
    using C 1 2 6 7 by blast
  from 0 a 1 2 3 4 b 5 c 6 7 d show ?thesis unfolding S1_def by blast
qed

text \<open>
  Claim C9 as stated equates the error with \<open>wrap(yaw(goal) - yaw(current))\<close> for all poses
  and lets the loop stop only on the tolerance. With the current pose rolled and pitched
  by 22.6 degrees and the goal level, both with yaw 0, \<open>wrap(yaw(goal) - yaw(current))\<close>
  is 0 while the error is \<open>- arctan(25/156)\<close>, about 9 degrees. And a run towards a goal a
  quarter turn away stops on the collision signal of its second tick, its error still
  \<open>\<pi>/2\<close>.
\<close>

theorem orientation_tick_counterexample:
  "is_rotation (rot tilted)
   \<and> yaw_b_wrt_a tilted (at_xy 0 0) = Inr (- arctan (25 / 156))
   \<and> pi_wrap (yaw (at_xy 0 0) - yaw tilted) = 0
   \<and> - arctan (25 / 156) \<noteq> 0
   \<and> yaw_b_wrt_a (at_xy 0 0) quarter_turn = Inr (pi / 2)
   \<and> \<not> \<bar>pi / 2\<bar> < pi / 180
   \<and> move_to_angle quarter_turn gt_config
        [snapshot False (Some (at_xy 0 0)) None, snapshot True (Some (at_xy 0 0)) None]
        fresh_controller
      = Some (Inr None,
          fresh_controller\<lparr>initial_pose_tf_mat := Some (at_xy 0 0),
             published := [\<lparr>linear_x = 0, angular_z = 3 * (pi / 2)\<rparr>,
                           \<lparr>linear_x = 0, angular_z = 0\<rparr>]\<rparr>)"
proof -
  note t = MOVE_TOL_YAW_def deg2rad_def
  have w: "pi_wrap (yaw (at_xy 0 0) - yaw tilted) = 0"
    by (simp add: yaw_tilted yaw_level pi_wrap_0)
  have n: "- arctan (25 / 156) \<noteq> 0" by simp
  have run: "move_to_angle quarter_turn gt_config
        [snapshot False (Some (at_xy 0 0)) None, snapshot True (Some (at_xy 0 0)) None]
        fresh_controller
      = Some (Inr None,
          fresh_controller\<lparr>initial_pose_tf_mat := Some (at_xy 0 0),
             published := [\<lparr>linear_x = 0, angular_z = 3 * (pi / 2)\<rparr>,
                           \<lparr>linear_x = 0, angular_z = 0\<rparr>]\<rparr>)"
    by (simp add: move_to_angle_def snapshot_collided cp_gt yaw_rel_turns t sf_gt
        fresh_controller_def publish_def Twist_def MOVE_ANGLE_K_def)
  have q: "\<not> \<bar>pi / 2\<bar> < pi / 180" by simp
  from tilted_rotation yaw_rel_tilted w n yaw_rel_turns(1) q run show ?thesis by blast
qed

section \<open>A move left by an exception\<close>

text \<open>
  Claim C1 promises a final zero velocity command on every exit path, the error paths
  included. Neither loop has a \<open>try\<close> around its body: \<open>publisher.publish(Twist())\<close> follows
  the \<open>while\<close> loop and is skipped when an exception leaves it. Driving from the origin to
  \<open>(1, 0)\<close>, the first iteration of \<open>_move_to_pose\<close> publishes the forward command
  \<open>(0.7, 0)\<close>; in the second the transform lookup fails, the exception reaches the caller,
  and \<open>(0.7, 0)\<close> stays the last command published. In the same way \<open>_move_to_angle\<close>,
  turning by a quarter turn, leaves the turn rate \<open>3\<pi>/2\<close> as the last command.
\<close>

theorem move_lookup_failure_leaves_last_command:
  "move_to_pose (at_xy 1 0) gt_config
     [snapshot False (Some (at_xy 0 0)) None, snapshot False None None] fresh_controller
   = Some (Inl LookupException,
        fresh_controller\<lparr>initial_pose_tf_mat := Some (at_xy 0 0),
           published := [\<lparr>linear_x = 7 / 10, angular_z = 0\<rparr>]\<rparr>)
   \<and> last [\<lparr>linear_x = 7 / 10, angular_z = 0\<rparr>] \<noteq> \<lparr>linear_x = 0, angular_z = (0::real)\<rparr>
   \<and> move_to_angle quarter_turn gt_config
     [snapshot False (Some (at_xy 0 0)) None, snapshot False None None] fresh_controller
   = Some (Inl LookupException,
        fresh_controller\<lparr>initial_pose_tf_mat := Some (at_xy 0 0),
           published := [\<lparr>linear_x = 0, angular_z = 3 * (pi / 2)\<rparr>]\<rparr>)
   \<and> last [\<lparr>linear_x = 0, angular_z = 3 * (pi / 2)\<rparr>] \<noteq> \<lparr>linear_x = 0, angular_z = 0\<rparr>"
proof -
  note t = MOVE_TOL_YAW_def deg2rad_def
  have d: "\<not> (1::real) < MOVE_TOL_DIST" by (simp add: MOVE_TOL_DIST_def)
  have p: "move_to_pose (at_xy 1 0) gt_config
     [snapshot False (Some (at_xy 0 0)) None, snapshot False None None] fresh_controller
   = Some (Inl LookupException,
        fresh_controller\<lparr>initial_pose_tf_mat := Some (at_xy 0 0),
           published := [\<lparr>linear_x = 7 / 10, angular_z = 0\<rparr>]\<rparr>)"
    by (simp add: move_to_pose_def snapshot_collided cp_gt cp_gt_fail dist_level rel_level
        ang_level yaw_level d sf_gt pi_wrap_0 arctan2_simps Let_def
        fresh_controller_def publish_def MOVE_POSE_K_RHO_def)
  have a: "move_to_angle quarter_turn gt_config
     [snapshot False (Some (at_xy 0 0)) None, snapshot False None None] fresh_controller
   = Some (Inl LookupException,
        fresh_controller\<lparr>initial_pose_tf_mat := Some (at_xy 0 0),
           published := [\<lparr>linear_x = 0, angular_z = 3 * (pi / 2)\<rparr>]\<rparr>)"
    by (simp add: move_to_angle_def snapshot_collided cp_gt cp_gt_fail yaw_rel_turns t sf_gt
        fresh_controller_def publish_def MOVE_ANGLE_K_def)
  show ?thesis unfolding p a by simp
qed

section \<open>The pose estimator\<close>

lemma create_pose_list_snd:
  "snd (create_pose_list cfg w s) = snd (define_initial_pose cfg w s)"
  by (auto simp: create_pose_list_def Let_def split: prod.splits sum.splits option.splits)

lemma create_pose_list_initial:
  assumes "initial_pose_tf_mat s = Some ip"
  shows "initial_pose_tf_mat (snd (create_pose_list cfg w s)) = Some ip"
  using assms define_initial_pose_state [of cfg w s] by (auto simp: create_pose_list_snd)

lemma move_to_pose_initial:
  assumes "move_to_pose g cfg ws s = Some (r, s')" "initial_pose_tf_mat s = Some ip"
  shows "initial_pose_tf_mat s' = Some ip"
  using move_to_pose_effect [OF assms(1)] assms(2) by blast

lemma move_to_angle_initial:
  assumes "move_to_angle g cfg ws s = Some (r, s')" "initial_pose_tf_mat s = Some ip"
  shows "initial_pose_tf_mat s' = Some ip"
  using move_to_angle_effect [OF assms(1)] assms(2) by blast

lemma move_angle_initial:
  assumes "move_angle data cfg ws s = Some (r, s')" "initial_pose_tf_mat s = Some ip"
  shows "initial_pose_tf_mat s' = Some ip"
proof (cases ws)
  case Nil
  with assms show ?thesis by (simp add: move_angle_def)
next
  case (Cons w ws')
  obtain rc s1 where cp: "current_pose cfg w s = (rc, s1)" by (cases "current_pose cfg w s")
  from current_pose_initial [OF cp assms(2)] have i1: "initial_pose_tf_mat s1 = Some ip" .
  from assms(1) Cons cp have
    "s' = s1 \<or> (\<exists>goal. move_to_pose goal cfg ws s1 = Some (r, s'))"
    by (auto simp: move_angle_def split: sum.splits)
  with i1 move_to_pose_initial show ?thesis by blast
qed

lemma move_distance_initial:
  assumes "move_distance data cfg ws s = Some (r, s')" "initial_pose_tf_mat s = Some ip"
  shows "initial_pose_tf_mat s' = Some ip"
proof (cases ws)
  case Nil
  with assms show ?thesis by (simp add: move_distance_def)
next
  case (Cons w ws')
  obtain rc s1 where cp: "current_pose cfg w s = (rc, s1)" by (cases "current_pose cfg w s")
  from current_pose_initial [OF cp assms(2)] have i1: "initial_pose_tf_mat s1 = Some ip" .
  from assms(1) Cons cp have
    "s' = s1 \<or> (\<exists>goal. move_to_pose goal cfg ws s1 = Some (r, s'))"
    by (auto simp: move_distance_def split: sum.splits)
  with i1 move_to_pose_initial show ?thesis by blast
qed

lemma configure_trajectory_initial:
  "initial_pose_tf_mat (snd (configure_trajectory cfg s)) = initial_pose_tf_mat s"
  by (auto simp: configure_trajectory_def Let_def split: option.splits)

lemma register_completed_initial:
  "initial_pose_tf_mat (register_completed s) = initial_pose_tf_mat s"
  by (simp add: register_completed_def Let_def)

lemma move_next_initial:
  assumes "move_next cfg ws s = Some (r, s')" "initial_pose_tf_mat s = Some ip"
  shows "initial_pose_tf_mat s' = Some ip"
proof -
  obtain rc s1 where ct: "configure_trajectory cfg s = (rc, s1)"
    by (cases "configure_trajectory cfg s")
  with configure_trajectory_initial [of cfg s] assms(2)
  have i1: "initial_pose_tf_mat s1 = Some ip" by simp
  from assms(1) ct have
    "s' = s1 \<or> (\<exists>goal r2 s2. move_to_pose goal cfg ws s1 = Some (r2, s2)
        \<and> (s' = s2 \<or> s' = register_completed s2))"
    by (auto simp: move_next_def split: sum.splits option.splits prod.splits)
  with i1 move_to_pose_initial register_completed_initial show ?thesis by metis
qed

text \<open>
  Claim C7. In ground-truth mode (the task name contains \<open>ground_truth\<close>) \<open>_current_pose\<close>
  returns the transform from the global frame to the robot frame as looked up. Otherwise
  (noisy mode) it returns the memoized initial pose composed with the transform from
  \<open>odom\<close> to the robot frame. The initial pose is captured by the first query of a clean
  episode, as the transform from the global frame to the robot frame at that time, and
  once it is set no callback changes it: not \<open>_current_pose\<close>, \<open>create_pose_list\<close>,
  \<open>_move_to_angle\<close>, \<open>_move_to_pose\<close>, \<open>move_angle\<close>, \<open>move_distance\<close> or \<open>move_next\<close>.
\<close>

theorem current_pose_modes_and_capture:
  "(str_in ''ground_truth'' (task_name cfg)
      \<and> lookup_transform w (global_frame cfg) (robot_frame cfg) = Some p
      \<longrightarrow> fst (current_pose cfg w s) = Inr p)
   \<and> (\<not> str_in ''ground_truth'' (task_name cfg)
      \<and> initial_pose_tf_mat s = Some ip
      \<and> lookup_transform w ''odom'' (robot_frame cfg) = Some od
      \<longrightarrow> fst (current_pose cfg w s) = Inr (matmul ip od))
   \<and> (\<not> str_in ''ground_truth'' (task_name cfg)
      \<and> initial_pose_tf_mat s = None \<and> \<not> is_dirty w
      \<and> lookup_transform w (global_frame cfg) (robot_frame cfg) = Some p
      \<and> lookup_transform w ''odom'' (robot_frame cfg) = Some od
      \<longrightarrow> fst (current_pose cfg w s) = Inr (matmul p od))
   \<and> (initial_pose_tf_mat s = None \<and> \<not> is_dirty w
      \<and> lookup_transform w (global_frame cfg) (robot_frame cfg) = Some p
      \<longrightarrow> initial_pose_tf_mat (snd (current_pose cfg w s)) = Some p)
   \<and> (initial_pose_tf_mat s = Some ip
      \<longrightarrow> initial_pose_tf_mat (snd (current_pose cfg w s)) = Some ip
        \<and> initial_pose_tf_mat (snd (create_pose_list cfg w s)) = Some ip
        \<and> (\<forall>r s'. move_to_angle g cfg ws s = Some (r, s') \<longrightarrow> initial_pose_tf_mat s' = Some ip)
        \<and> (\<forall>r s'. move_to_pose g cfg ws s = Some (r, s') \<longrightarrow> initial_pose_tf_mat s' = Some ip)
        \<and> (\<forall>r s'. move_angle data cfg ws s = Some (r, s') \<longrightarrow> initial_pose_tf_mat s' = Some ip)
        \<and> (\<forall>r s'. move_distance data cfg ws s = Some (r, s')
              \<longrightarrow> initial_pose_tf_mat s' = Some ip)
        \<and> (\<forall>r s'. move_next cfg ws s = Some (r, s') \<longrightarrow> initial_pose_tf_mat s' = Some ip))"
proof -
  have a: "fst (current_pose cfg w s) = Inr p"
    if "str_in ''ground_truth'' (task_name cfg)"
      "lookup_transform w (global_frame cfg) (robot_frame cfg) = Some p"
    using that by (simp add: current_pose_def define_initial_pose_def)
  have b: "fst (current_pose cfg w s) = Inr (matmul ip od)"
    if "\<not> str_in ''ground_truth'' (task_name cfg)" "initial_pose_tf_mat s = Some ip"
      "lookup_transform w ''odom'' (robot_frame cfg) = Some od"
    using that by (simp add: current_pose_def define_initial_pose_def get_noisy_pose_def)
  have c: "fst (current_pose cfg w s) = Inr (matmul p od)"
    if "\<not> str_in ''ground_truth'' (task_name cfg)" "initial_pose_tf_mat s = None"
      "\<not> is_dirty w" "lookup_transform w (global_frame cfg) (robot_frame cfg) = Some p"
      "lookup_transform w ''odom'' (robot_frame cfg) = Some od"
    using that by (simp add: current_pose_def define_initial_pose_def get_noisy_pose_def)
  have d: "initial_pose_tf_mat (snd (current_pose cfg w s)) = Some p"
    if "initial_pose_tf_mat s = None" "\<not> is_dirty w"
      "lookup_transform w (global_frame cfg) (robot_frame cfg) = Some p"
    using that by (simp add: current_pose_snd define_initial_pose_def)
  have e: "initial_pose_tf_mat (snd (current_pose cfg w s)) = Some ip"
    if "initial_pose_tf_mat s = Some ip"
    using that current_pose_state [of cfg w s] by auto
  note f = create_pose_list_initial [of s ip cfg w]
  from a b c d e f move_to_angle_initial [of g cfg ws s _ _ ip]
    move_to_pose_initial [of g cfg ws s _ _ ip] move_angle_initial [of data cfg ws s _ _ ip]
    move_distance_initial [of data cfg ws s _ _ ip] move_next_initial [of cfg ws s _ _ ip]
  show ?thesis by blast
qed


lemma config_fields:
  "task_name (example_config n l) = n" "task_localisation (example_config n l) = l"
  "global_frame (example_config n l) = ''map''" "robot_frame (example_config n l) = ''base_link''"
  by (simp_all add: example_config_def)

lemma snapshot_fields:
  "is_dirty (snapshot hit a b) = False"
  "lookup_transform (snapshot hit a b) ''map'' ''base_link'' = a"
  "lookup_transform (snapshot hit a b) ''odom'' ''base_link'' = b"
  by (simp_all add: snapshot_def)

lemma matmul_level: "matmul (at_xy a b) (at_xy c d) = at_xy (a + c) (b + d)"
  by (simp add: matmul_def at_xy_def identity3_def)

theorem current_pose_modes_and_capture_witness:
  "str_in ''ground_truth'' (task_name gt_config)
   \<and> lookup_transform (snapshot False (Some (at_xy 5 0)) (Some (at_xy 2 0)))
        (global_frame gt_config) (robot_frame gt_config) = Some (at_xy 5 0)
   \<and> fst (current_pose gt_config (snapshot False (Some (at_xy 5 0)) (Some (at_xy 2 0)))
           fresh_controller) = Inr (at_xy 5 0)
   \<and> initial_pose_tf_mat fresh_controller = None
   \<and> \<not> is_dirty (snapshot False (Some (at_xy 5 0)) (Some (at_xy 2 0)))
   \<and> initial_pose_tf_mat
        (snd (current_pose gt_config (snapshot False (Some (at_xy 5 0)) (Some (at_xy 2 0)))
           fresh_controller)) = Some (at_xy 5 0)
   \<and> \<not> str_in ''ground_truth'' (task_name noisy_config)
   \<and> lookup_transform (snapshot False (Some (at_xy 5 0)) (Some (at_xy 2 0)))
        ''odom'' (robot_frame noisy_config) = Some (at_xy 2 0)
   \<and> fst (current_pose noisy_config (snapshot False (Some (at_xy 5 0)) (Some (at_xy 2 0)))
           fresh_controller) = Inr (at_xy 7 0)
   \<and> initial_pose_tf_mat (fresh_controller\<lparr>initial_pose_tf_mat := Some (at_xy 0 0)\<rparr>)
       = Some (at_xy 0 0)
   \<and> fst (current_pose noisy_config (snapshot False (Some (at_xy 5 0)) (Some (at_xy 2 0)))
           (fresh_controller\<lparr>initial_pose_tf_mat := Some (at_xy 0 0)\<rparr>)) = Inr (at_xy 2 0)
   \<and> initial_pose_tf_mat
        (snd (current_pose noisy_config (snapshot False (Some (at_xy 5 0)) (Some (at_xy 2 0)))
           (fresh_controller\<lparr>initial_pose_tf_mat := Some (at_xy 0 0)\<rparr>))) = Some (at_xy 0 0)
   \<and> move_to_pose (at_xy 1 0) noisy_config [snapshot True (Some (at_xy 5 0)) (Some (at_xy 2 0))]
        (fresh_controller\<lparr>initial_pose_tf_mat := Some (at_xy 0 0)\<rparr>)
       = Some (Inr None, publish Twist (fresh_controller\<lparr>initial_pose_tf_mat := Some (at_xy 0 0)\<rparr>))
   \<and> initial_pose_tf_mat
         (publish Twist (fresh_controller\<lparr>initial_pose_tf_mat := Some (at_xy 0 0)\<rparr>))
       = Some (at_xy 0 0)"
proof -
  define W where "W = snapshot False (Some (at_xy 5 0)) (Some (at_xy 2 0))"
  define S where "S = fresh_controller\<lparr>initial_pose_tf_mat := Some (at_xy 0 0)\<rparr>"
  have g1: "str_in ''ground_truth'' (task_name gt_config)"
    by (simp add: gt_config_def config_fields)
  have g2: "lookup_transform W (global_frame gt_config) (robot_frame gt_config) = Some (at_xy 5 0)"
    by (simp add: W_def gt_config_def config_fields snapshot_fields)
  have n1: "\<not> str_in ''ground_truth'' (task_name noisy_config)"
    by (simp add: noisy_config_def config_fields)
  have n2: "lookup_transform W (global_frame noisy_config) (robot_frame noisy_config)
      = Some (at_xy 5 0)"
    by (simp add: W_def noisy_config_def config_fields snapshot_fields)
  have n3: "lookup_transform W ''odom'' (robot_frame noisy_config) = Some (at_xy 2 0)"
    by (simp add: W_def noisy_config_def config_fields snapshot_fields)
  have f1: "initial_pose_tf_mat fresh_controller = None" by (simp add: fresh_controller_def)
  have f2: "\<not> is_dirty W" by (simp add: W_def snapshot_fields)
  have s1: "initial_pose_tf_mat S = Some (at_xy 0 0)" by (simp add: S_def)
  have run: "move_to_pose (at_xy 1 0) noisy_config
      [snapshot True (Some (at_xy 5 0)) (Some (at_xy 2 0))] S = Some (Inr None, publish Twist S)"
    by (simp add: move_to_pose_def snapshot_collided)
  note G = current_pose_modes_and_capture [of gt_config W "at_xy 5 0" fresh_controller]
  note N = current_pose_modes_and_capture [of noisy_config W "at_xy 5 0" fresh_controller
      _ "at_xy 2 0"]
  note M = current_pose_modes_and_capture [of noisy_config W _ S "at_xy 0 0" "at_xy 2 0"
      "at_xy 1 0" "[snapshot True (Some (at_xy 5 0)) (Some (at_xy 2 0))]"]
  have c1: "fst (current_pose gt_config W fresh_controller) = Inr (at_xy 5 0)"
    using G g1 g2 by blast
  have c2: "initial_pose_tf_mat (snd (current_pose gt_config W fresh_controller))
      = Some (at_xy 5 0)"
    using G f1 f2 g2 by blast
  have c3: "fst (current_pose noisy_config W fresh_controller)
      = Inr (matmul (at_xy 5 0) (at_xy 2 0))"
    using N n1 n2 n3 f1 f2 by blast
  have c4: "fst (current_pose noisy_config W S) = Inr (matmul (at_xy 0 0) (at_xy 2 0))"
    using M n1 n3 s1 by blast
  have c5: "initial_pose_tf_mat (snd (current_pose noisy_config W S)) = Some (at_xy 0 0)"
    using M s1 by blast
  have c6: "initial_pose_tf_mat (publish Twist S) = Some (at_xy 0 0)"
    using M s1 run by blast
  from g1 g2 c1 f1 f2 c2 n1 n3 c3 s1 c4 c5 run c6 show ?thesis
    unfolding W_def S_def by (simp add: matmul_level)
qed

section \<open>Selection of the localisation mode\<close>

lemma create_pose_list_single:
  assumes "poses cfg = [q]" "q \<noteq> ''initial_pose''"
    and "initial_pose_tf_mat s = Some ip"
    and "lookup_transform w (global_frame cfg) q = Some pg"
    and "lookup_transform w ''odom'' q = Some po"
  shows "fst (create_pose_list cfg w s)
         = Inr [(if str_in ''left_camera'' q then ''camera'' else q,
                 let v = (if task_localisation cfg \<noteq> ''noisy'' then pg else matmul ip po)
                 in \<lparr>parent_frame = global_frame cfg, translation_xyz = trans v,
                     rotation = rot v\<rparr>)]"
  using assms
  by (simp add: create_pose_list_def define_initial_pose_def get_noisy_pose_def Let_def)

text \<open>
  Claim C10. \<open>_current_pose\<close> answers in ground-truth mode exactly when the task name
  contains \<open>ground_truth\<close>; \<open>create_pose_list\<close> answers in ground-truth mode exactly when
  the localisation field is not \<open>noisy\<close>. With the task name
  \<open>semantic_slam:active:ground_truth\<close> and the localisation \<open>noisy\<close>, the two disagree in
  one session: for the frame of the robot the first reports the pose in the global frame,
  the second the initial pose composed with the odometry.
\<close>

theorem localisation_mode_mismatch:
  "(initial_pose_tf_mat s = Some ip
      \<and> lookup_transform w (global_frame cfg) (robot_frame cfg) = Some pg
      \<and> lookup_transform w ''odom'' (robot_frame cfg) = Some po
      \<longrightarrow> fst (current_pose cfg w s)
          = Inr (if str_in ''ground_truth'' (task_name cfg) then pg else matmul ip po))
   \<and> (poses cfg = [q] \<and> q \<noteq> ''initial_pose''
      \<and> initial_pose_tf_mat s = Some ip
      \<and> lookup_transform w (global_frame cfg) q = Some pg
      \<and> lookup_transform w ''odom'' q = Some po
      \<longrightarrow> fst (create_pose_list cfg w s)
          = Inr [(if str_in ''left_camera'' q then ''camera'' else q,
                  let v = (if task_localisation cfg \<noteq> ''noisy'' then pg else matmul ip po)
                  in \<lparr>parent_frame = global_frame cfg, translation_xyz = trans v,
                      rotation = rot v\<rparr>)])
   \<and> str_in ''ground_truth'' (task_name mixed_config)
   \<and> \<not> task_localisation mixed_config \<noteq> ''noisy''
   \<and> fst (current_pose mixed_config (snapshot False (Some (at_xy 5 0)) (Some (at_xy 2 0)))
           (fresh_controller\<lparr>initial_pose_tf_mat := Some (at_xy 0 0)\<rparr>))
       = Inr (at_xy 5 0)
   \<and> fst (create_pose_list (mixed_config\<lparr>poses := [''base_link'']\<rparr>)
           (snapshot False (Some (at_xy 5 0)) (Some (at_xy 2 0)))
           (fresh_controller\<lparr>initial_pose_tf_mat := Some (at_xy 0 0)\<rparr>))
       = Inr [(''base_link'',
               \<lparr>parent_frame = ''map'', translation_xyz = (2, 0, 0), rotation = identity3\<rparr>)]"
proof -
  have a: "fst (current_pose cfg w s)
          = Inr (if str_in ''ground_truth'' (task_name cfg) then pg else matmul ip po)"
    if "initial_pose_tf_mat s = Some ip"
      "lookup_transform w (global_frame cfg) (robot_frame cfg) = Some pg"
      "lookup_transform w ''odom'' (robot_frame cfg) = Some po"
    using that by (simp add: current_pose_def define_initial_pose_def get_noisy_pose_def)
  note b = create_pose_list_single [of cfg q s ip w pg po]
  have c: "str_in ''ground_truth'' (task_name mixed_config)"
    by (simp add: mixed_config_def config_fields)
  have d: "\<not> task_localisation mixed_config \<noteq> ''noisy''"
    by (simp add: mixed_config_def config_fields)
  have e: "fst (current_pose mixed_config (snapshot False (Some (at_xy 5 0)) (Some (at_xy 2 0)))
           (fresh_controller\<lparr>initial_pose_tf_mat := Some (at_xy 0 0)\<rparr>))
       = Inr (at_xy 5 0)"
    by (simp add: current_pose_def define_initial_pose_def mixed_config_def config_fields
          snapshot_fields)
  have f: "fst (create_pose_list (mixed_config\<lparr>poses := [''base_link'']\<rparr>)
           (snapshot False (Some (at_xy 5 0)) (Some (at_xy 2 0)))
           (fresh_controller\<lparr>initial_pose_tf_mat := Some (at_xy 0 0)\<rparr>))
       = Inr [(''base_link'',
               \<lparr>parent_frame = ''map'', translation_xyz = (2, 0, 0), rotation = identity3\<rparr>)]"
    by (simp add: create_pose_list_def define_initial_pose_def get_noisy_pose_def Let_def
          mixed_config_def example_config_def snapshot_def matmul_level)
       (simp add: at_xy_def)
  from a b c d e f show ?thesis by blast
qed

theorem localisation_mode_mismatch_witness:
  "initial_pose_tf_mat (fresh_controller\<lparr>initial_pose_tf_mat := Some (at_xy 0 0)\<rparr>)
     = Some (at_xy 0 0)
   \<and> lookup_transform (snapshot False (Some (at_xy 5 0)) (Some (at_xy 2 0)))
        (global_frame noisy_config) (robot_frame noisy_config) = Some (at_xy 5 0)
   \<and> lookup_transform (snapshot False (Some (at_xy 5 0)) (Some (at_xy 2 0)))
        ''odom'' (robot_frame noisy_config) = Some (at_xy 2 0)
   \<and> fst (current_pose noisy_config (snapshot False (Some (at_xy 5 0)) (Some (at_xy 2 0)))
        (fresh_controller\<lparr>initial_pose_tf_mat := Some (at_xy 0 0)\<rparr>)) = Inr (at_xy 2 0)
   \<and> poses (gt_config\<lparr>poses := [''base_link'']\<rparr>) = [''base_link'']
   \<and> ''base_link'' \<noteq> ''initial_pose''
   \<and> fst (create_pose_list (gt_config\<lparr>poses := [''base_link'']\<rparr>)
        (snapshot False (Some (at_xy 5 0)) (Some (at_xy 2 0)))
        (fresh_controller\<lparr>initial_pose_tf_mat := Some (at_xy 0 0)\<rparr>))
       = Inr [(''base_link'',
               \<lparr>parent_frame = ''map'', translation_xyz = (5, 0, 0), rotation = identity3\<rparr>)]"
proof -
  define W where "W = snapshot False (Some (at_xy 5 0)) (Some (at_xy 2 0))"
  define S where "S = fresh_controller\<lparr>initial_pose_tf_mat := Some (at_xy 0 0)\<rparr>"
  define C where "C = gt_config\<lparr>poses := [''base_link'']\<rparr>"
  have s1: "initial_pose_tf_mat S = Some (at_xy 0 0)" by (simp add: S_def)
  have n2: "lookup_transform W (global_frame noisy_config) (robot_frame noisy_config)
      = Some (at_xy 5 0)"
    by (simp add: W_def noisy_config_def config_fields snapshot_fields)
  have n3: "lookup_transform W ''odom'' (robot_frame noisy_config) = Some (at_xy 2 0)"
    by (simp add: W_def noisy_config_def config_fields snapshot_fields)
  have n1: "\<not> str_in ''ground_truth'' (task_name noisy_config)"
    by (simp add: noisy_config_def config_fields)
  have p1: "poses C = [''base_link'']" by (simp add: C_def)
  have p2: "''base_link'' \<noteq> ''initial_pose''" by simp
  have p3: "lookup_transform W (global_frame C) ''base_link'' = Some (at_xy 5 0)"
    by (simp add: W_def C_def gt_config_def config_fields snapshot_fields)
  have p4: "lookup_transform W ''odom'' ''base_link'' = Some (at_xy 2 0)"
    by (simp add: W_def snapshot_fields)
  have p5: "task_localisation C \<noteq> ''noisy''" "global_frame C = ''map''"
    "\<not> str_in ''left_camera'' ''base_link''"
    by (simp_all add: C_def gt_config_def config_fields)
  note A = localisation_mode_mismatch [of S "at_xy 0 0" W noisy_config "at_xy 5 0" "at_xy 2 0"]
  note B = localisation_mode_mismatch [of S "at_xy 0 0" W C "at_xy 5 0" "at_xy 2 0" "''base_link''"]
  have c1: "fst (current_pose noisy_config W S) = Inr (at_xy 2 0)"
    using A s1 n2 n3 n1 by (simp add: matmul_level)
  have c2: "fst (create_pose_list C W S)
       = Inr [(''base_link'',
               \<lparr>parent_frame = ''map'', translation_xyz = (5, 0, 0), rotation = identity3\<rparr>)]"
    using B p1 p2 s1 p3 p4 p5 by (simp add: Let_def at_xy_def)
  from s1 n2 n3 c1 p1 p2 c2 show ?thesis
    unfolding W_def S_def C_def by simp
qed

section \<open>The trajectory sequencer\<close>

lemma move_next_exhausted:
  assumes "trajectory_pose_next s = Some n" "trajectory_poses s = Some tps" "length tps \<le> n"
  shows "move_next cfg ws s = Some (Inl IndexError, s)"
  using assms by (simp add: move_next_def configure_trajectory_def next_goal_def)

lemma move_next_advances:
  assumes "trajectory_pose_next s = Some n" "trajectory_poses s = Some tps"
    and "next_goal s = Inr goal"
    and "move_to_pose goal cfg ws s = Some (Inr v, s2)"
  shows "\<exists>s'. move_next cfg ws s = Some (Inr None, s')
           \<and> trajectory_pose_next s' = Some (Suc n) \<and> trajectory_poses s' = Some tps"
proof -
  from move_to_pose_effect [OF assms(4)] assms(1,2)
  have "trajectory_pose_next s2 = Some n" "trajectory_poses s2 = Some tps" by simp_all
  then have "trajectory_pose_next (register_completed s2) = Some (Suc n)"
    "trajectory_poses (register_completed s2) = Some tps"
    by (simp_all add: register_completed_def Let_def)
  moreover from assms have "move_next cfg ws s = Some (Inr None, register_completed s2)"
    by (simp add: move_next_def configure_trajectory_def)
  ultimately show ?thesis by blast
qed

lemma move_next_step:
  assumes "configure_trajectory cfg s = (Inr (), s1)"
    and "next_goal s1 = Inr goal"
    and "move_to_pose goal cfg ws s1 = Some (Inr v, s2)"
  shows "move_next cfg ws s = Some (Inr None, register_completed s2)"
  using assms by (simp add: move_next_def)

lemma miniroom_goal:
  assumes "trajectory_poses s
      = Some [[1, 0, 0, 0, 1, 0, 0], [1, 0, 0, 0, 2, 0, 0], [1, 0, 0, 0, 3, 0, 0]]"
  shows "trajectory_pose_next s = Some 0 \<Longrightarrow> next_goal s = Inr (at_xy 1 0)"
    and "trajectory_pose_next s = Some 1 \<Longrightarrow> next_goal s = Inr (at_xy 2 0)"
    and "trajectory_pose_next s = Some 2 \<Longrightarrow> next_goal s = Inr (at_xy 3 0)"
  using assms by (simp_all add: next_goal_def np_take_def at_xy_def identity3_def)

lemma arrive_at_once:
  "move_to_pose (at_xy x 0) gt_config [snapshot False (Some (at_xy x 0)) None] s
   = Some (Inr None,
       (if initial_pose_tf_mat s = None then s\<lparr>initial_pose_tf_mat := Some (at_xy x 0)\<rparr> else s)
         \<lparr>published := published s @ [Twist, Twist]\<rparr>)"
  by (simp add: move_to_pose_def move_to_angle_def snapshot_collided cp_gt dist_level
        rel_level yaw_rel_level tol_dist_pos tol_yaw_pos Let_def publish_def)

lemma env_miniroom:
  "environments gt_config ''miniroom''
   = Some [[1, 0, 0, 0, 1, 0, 0], [1, 0, 0, 0, 2, 0, 0], [1, 0, 0, 0, 3, 0, 0]]"
  by (simp add: gt_config_def example_config_def)

text \<open>
  Claim C2 on the example session with three waypoints. Three calls of \<open>move_next\<close>
  return and take the cursor from 0 to 3, the third one logging that the poses have run
  out. The fourth call raises \<open>IndexError\<close> when it reads the waypoint under the cursor:
  the cursor stays at 3 and \<open>_move_to_pose\<close> is not called, but nothing is reported and
  the exception reaches the caller.
\<close>

theorem move_next_fourth_call_raises:
  "move_next gt_config [snapshot False (Some (at_xy 1 0)) None] fresh_controller
     = Some (Inr None, miniroom_run 1)
   \<and> move_next gt_config [snapshot False (Some (at_xy 2 0)) None] (miniroom_run 1)
     = Some (Inr None, miniroom_run 2)
   \<and> move_next gt_config [snapshot False (Some (at_xy 3 0)) None] (miniroom_run 2)
     = Some (Inr None, miniroom_run 3)
   \<and> trajectory_pose_next (miniroom_run 3) = Some 3
   \<and> logerr (miniroom_run 3) = [''You have run out of trajectory poses!'']
   \<and> move_next gt_config [snapshot False (Some (at_xy 3 0)) None] (miniroom_run 3)
     = Some (Inl IndexError, miniroom_run 3)"
proof -
  define s0 where "s0 = fresh_controller\<lparr>trajectory_pose_next := Some 0,
      trajectory_poses :=
        Some [[1, 0, 0, 0, 1, 0, 0], [1, 0, 0, 0, 2, 0, 0], [1, 0, 0, 0, 3, 0, 0]]\<rparr>"
  have k0: "configure_trajectory gt_config fresh_controller = (Inr (), s0)"
    by (simp add: configure_trajectory_def fresh_controller_def env_miniroom Let_def s0_def)
  have k: "configure_trajectory gt_config (miniroom_run n) = (Inr (), miniroom_run n)" for n
    by (simp add: configure_trajectory_def miniroom_run_def)
  have g0: "next_goal s0 = Inr (at_xy 1 0)"
    by (rule miniroom_goal(1)) (simp_all add: s0_def)
  have g1: "next_goal (miniroom_run 1) = Inr (at_xy 2 0)"
    by (rule miniroom_goal(2)) (simp_all add: miniroom_run_def)
  have g2: "next_goal (miniroom_run 2) = Inr (at_xy 3 0)"
    by (rule miniroom_goal(3)) (simp_all add: miniroom_run_def)
  have r0: "register_completed
        ((if initial_pose_tf_mat s0 = None then s0\<lparr>initial_pose_tf_mat := Some (at_xy 1 0)\<rparr>
          else s0)\<lparr>published := published s0 @ [Twist, Twist]\<rparr>) = miniroom_run 1"
    by (simp add: register_completed_def Let_def s0_def fresh_controller_def miniroom_run_def
          eval_nat_numeral)
  have r1: "register_completed
        ((if initial_pose_tf_mat (miniroom_run 1) = None
          then (miniroom_run 1)\<lparr>initial_pose_tf_mat := Some (at_xy 2 0)\<rparr>
          else miniroom_run 1)\<lparr>published := published (miniroom_run 1) @ [Twist, Twist]\<rparr>)
        = miniroom_run 2"
    by (simp add: register_completed_def Let_def miniroom_run_def eval_nat_numeral)
  have r2: "register_completed
        ((if initial_pose_tf_mat (miniroom_run 2) = None
          then (miniroom_run 2)\<lparr>initial_pose_tf_mat := Some (at_xy 3 0)\<rparr>
          else miniroom_run 2)\<lparr>published := published (miniroom_run 2) @ [Twist, Twist]\<rparr>)
        = miniroom_run 3"
    by (simp add: register_completed_def Let_def miniroom_run_def eval_nat_numeral)
  have c1: "move_next gt_config [snapshot False (Some (at_xy 1 0)) None] fresh_controller
     = Some (Inr None, miniroom_run 1)"
    using move_next_step [OF k0 g0 arrive_at_once] r0 by simp
  have c2: "move_next gt_config [snapshot False (Some (at_xy 2 0)) None] (miniroom_run 1)
     = Some (Inr None, miniroom_run 2)"
    using move_next_step [OF k g1 arrive_at_once] r1 by simp
  have c3: "move_next gt_config [snapshot False (Some (at_xy 3 0)) None] (miniroom_run 2)
     = Some (Inr None, miniroom_run 3)"
    using move_next_step [OF k g2 arrive_at_once] r2 by simp
  have c4: "move_next gt_config [snapshot False (Some (at_xy 3 0)) None] (miniroom_run 3)
     = Some (Inl IndexError, miniroom_run 3)"
    by (simp add: move_next_def configure_trajectory_def next_goal_def miniroom_run_def)
  from c1 c2 c3 c4 show ?thesis by (simp add: miniroom_run_def)
qed

end
